theory Spec2Isabelle
  imports Complex_Main
begin

section \<open>Data model\<close>

text \<open>
  The sessions are JSON values read into Python dictionaries. Every key is read with
  \<^verbatim>\<open>.get(key, default)\<close> or guarded by \<^verbatim>\<open>key in d\<close>, so every field
  is optional. Numbers of the input are finite reals. The fields \<open>point_x\<close>, \<open>point_y\<close>
  and \<open>sid\<close> stand for the keys \<open>x\<close>, \<open>y\<close> and \<open>id\<close>. A method takes its object as
  the first argument \<open>self\<close>; no method of the source assigns to a field of its object,
  except \<^verbatim>\<open>load_sessions\<close>, which returns the loader it has extended.
\<close>

record point =
  point_x :: "real option"
  point_y :: "real option"
  timestamp :: "real option"
  pressure :: "real option"

record stroke =
  points :: "point list option"
  startTime :: "real option"
  endTime :: "real option"

type_synonym canvas = "string \<rightharpoonup> real"

record session_data =
  strokes :: "stroke list option"
  canvasSize :: "canvas option"

record session =
  sid :: "string option"
  testType :: "string option"
  createdAt :: "int option"
  data :: "session_data option"

text \<open>\<^verbatim>\<open>d.get(key, default)\<close> on an optional field.\<close>

definition get_or :: "'a option \<Rightarrow> 'a \<Rightarrow> 'a" where
  "get_or v d = (case v of None \<Rightarrow> d | Some a \<Rightarrow> a)"

section \<open>Numbers and failures\<close>

text \<open>
  A float of numpy is an exact real or one of the special values of IEEE 754.
  Arithmetic is exact on the reals (rounding and overflow are left out, and so is the
  sign of zero); what is kept is that a float division by zero does not raise: it gives
  an infinity or a NaN.
\<close>

datatype npfloat = Fin real | PInf | NInf | NaN

fun fneg :: "npfloat \<Rightarrow> npfloat" where
  "fneg (Fin a) = Fin (- a)"
| "fneg PInf = NInf"
| "fneg NInf = PInf"
| "fneg NaN = NaN"

fun fadd :: "npfloat \<Rightarrow> npfloat \<Rightarrow> npfloat" where
  "fadd (Fin a) (Fin b) = Fin (a + b)"
| "fadd NaN _ = NaN"
| "fadd _ NaN = NaN"
| "fadd PInf NInf = NaN"
| "fadd NInf PInf = NaN"
| "fadd PInf _ = PInf"
| "fadd _ PInf = PInf"
| "fadd NInf _ = NInf"
| "fadd _ NInf = NInf"

definition fsub :: "npfloat \<Rightarrow> npfloat \<Rightarrow> npfloat" where
  "fsub a b = fadd a (fneg b)"

definition fsign :: "npfloat \<Rightarrow> int" where
  "fsign a = (case a of Fin r \<Rightarrow> (if r < 0 then - 1 else if r = 0 then 0 else 1)
                | PInf \<Rightarrow> 1 | NInf \<Rightarrow> - 1 | NaN \<Rightarrow> 0)"

definition inf_of_sign :: "int \<Rightarrow> npfloat" where
  "inf_of_sign s = (if s < 0 then NInf else if s = 0 then NaN else PInf)"

fun fmul :: "npfloat \<Rightarrow> npfloat \<Rightarrow> npfloat" where
  "fmul (Fin a) (Fin b) = Fin (a * b)"
| "fmul NaN _ = NaN"
| "fmul _ NaN = NaN"
| "fmul a b = inf_of_sign (fsign a * fsign b)"

fun fdiv :: "npfloat \<Rightarrow> npfloat \<Rightarrow> npfloat" where
  "fdiv (Fin a) (Fin b) = (if b = 0 then inf_of_sign (fsign (Fin a)) else Fin (a / b))"
| "fdiv NaN _ = NaN"
| "fdiv _ NaN = NaN"
| "fdiv (Fin a) _ = Fin 0"
| "fdiv a (Fin b) = inf_of_sign (fsign a * (if b < 0 then - 1 else 1))"
| "fdiv _ _ = NaN"

fun fsqrt :: "npfloat \<Rightarrow> npfloat" where
  "fsqrt (Fin a) = (if a < 0 then NaN else Fin (sqrt a))"
| "fsqrt PInf = PInf"
| "fsqrt _ = NaN"

fun fabs :: "npfloat \<Rightarrow> npfloat" where
  "fabs (Fin a) = Fin \<bar>a\<bar>"
| "fabs NaN = NaN"
| "fabs _ = PInf"

text \<open>\<^verbatim>\<open>a > b\<close>: false as soon as one side is a NaN.\<close>

fun fgt :: "npfloat \<Rightarrow> npfloat \<Rightarrow> bool" where
  "fgt (Fin a) (Fin b) = (a > b)"
| "fgt NaN _ = False"
| "fgt _ NaN = False"
| "fgt PInf b = (b \<noteq> PInf)"
| "fgt a NInf = (a \<noteq> NInf)"
| "fgt _ _ = False"

text \<open>Python's builtin \<^verbatim>\<open>max(a, b)\<close> keeps \<open>a\<close> unless \<open>b > a\<close>.\<close>

definition py_max :: "npfloat \<Rightarrow> npfloat \<Rightarrow> npfloat" where
  "py_max a b = (if fgt b a then b else a)"

text \<open>The maximum and minimum of numpy let a NaN through.\<close>

definition fmax :: "npfloat \<Rightarrow> npfloat \<Rightarrow> npfloat" where
  "fmax a b = (if a = NaN \<or> b = NaN then NaN else if fgt b a then b else a)"

definition fmin :: "npfloat \<Rightarrow> npfloat \<Rightarrow> npfloat" where
  "fmin a b = (if a = NaN \<or> b = NaN then NaN else if fgt a b then b else a)"

text \<open>
  What raises in the source is a value \<open>Inl e\<close> of the model: a list read out of range,
  and the maximum or minimum of an empty sequence.
\<close>

datatype error = IndexError | ValueError

definition bind_err :: "error + 'a \<Rightarrow> ('a \<Rightarrow> error + 'b) \<Rightarrow> error + 'b" where
  "bind_err m f = (case m of Inl e \<Rightarrow> Inl e | Inr v \<Rightarrow> f v)"

text \<open>\<^verbatim>\<open>xs[i]\<close> for an index that is not negative.\<close>

definition get_item :: "'a list \<Rightarrow> nat \<Rightarrow> error + 'a" where
  "get_item xs i = (if i < length xs then Inr (xs ! i) else Inl IndexError)"

text \<open>\<^verbatim>\<open>sum(xs)\<close> and the sum inside \<^verbatim>\<open>np.mean\<close>.\<close>

definition py_sum :: "npfloat list \<Rightarrow> npfloat" where
  "py_sum xs = foldl fadd (Fin 0) xs"

text \<open>\<^verbatim>\<open>np.mean\<close>: on an empty sequence it warns and gives a NaN.\<close>

definition np_mean :: "npfloat list \<Rightarrow> npfloat" where
  "np_mean xs = fdiv (py_sum xs) (Fin (real (length xs)))"

text \<open>\<^verbatim>\<open>np.std\<close>: the root of the mean of the squared deviations from the mean.\<close>

definition np_std :: "npfloat list \<Rightarrow> npfloat" where
  "np_std xs = (let m = np_mean xs in
     fsqrt (np_mean (map (\<lambda>v. fmul (fsub v m) (fsub v m)) xs)))"

definition np_max :: "npfloat list \<Rightarrow> error + npfloat" where
  "np_max xs = (case xs of [] \<Rightarrow> Inl ValueError | v # vs \<Rightarrow> Inr (foldl fmax v vs))"

definition np_min :: "npfloat list \<Rightarrow> error + npfloat" where
  "np_min xs = (case xs of [] \<Rightarrow> Inl ValueError | v # vs \<Rightarrow> Inr (foldl fmin v vs))"

text \<open>
  A loop \<^verbatim>\<open>for i in ...\<close> whose body appends one value to a list: the
  values in order, or the first failure.
\<close>

fun collect :: "('i \<Rightarrow> error + 'a) \<Rightarrow> 'i list \<Rightarrow> error + 'a list" where
  "collect body [] = Inr []"
| "collect body (i # rest) =
     bind_err (body i) (\<lambda>v. bind_err (collect body rest) (\<lambda>vs. Inr (v # vs)))"

type_synonym features = "string \<rightharpoonup> npfloat"

section \<open>FeatureEngineer\<close>

record feature_engineer =
  feature_names :: "string list"

definition new_feature_engineer :: feature_engineer where
  "new_feature_engineer = \<lparr>feature_names = []\<rparr>"

definition empty_kinematic_features :: features where
  "empty_kinematic_features = map_of
     [(''velocity_mean'', Fin 0), (''velocity_std'', Fin 0), (''velocity_max'', Fin 0),
      (''acceleration_mean'', Fin 0), (''acceleration_std'', Fin 0),
      (''jerk_mean'', Fin 0), (''jerk_std'', Fin 0),
      (''path_length_total'', Fin 0), (''path_length_mean'', Fin 0)]"

definition empty_spatial_features :: features where
  "empty_spatial_features = map_of
     [(''bounding_box_width'', Fin 0), (''bounding_box_height'', Fin 0),
      (''bounding_box_area'', Fin 0), (''canvas_coverage'', Fin 0),
      (''center_offset_x'', Fin 0), (''center_offset_y'', Fin 0),
      (''center_offset_total'', Fin 0)]"

definition empty_temporal_features :: features where
  "empty_temporal_features = map_of
     [(''stroke_duration_mean'', Fin 0), (''stroke_duration_std'', Fin 0),
      (''stroke_duration_max'', Fin 0), (''inter_stroke_pause_mean'', Fin 0),
      (''inter_stroke_pause_std'', Fin 0), (''inter_stroke_pause_max'', Fin 0),
      (''total_pause_time'', Fin 0)]"

definition empty_pressure_features :: features where
  "empty_pressure_features = map_of
     [(''pressure_mean'', Fin 0), (''pressure_std'', Fin 0), (''pressure_min'', Fin 0),
      (''pressure_max'', Fin 0), (''pressure_range'', Fin 0), (''pressure_cv'', Fin 0)]"

subsection \<open>compute_kinematic_features\<close>

text \<open>\<^verbatim>\<open>max(1, p1.get('timestamp', 0) - p0.get('timestamp', 0))\<close>\<close>

definition time_delta :: "point \<Rightarrow> point \<Rightarrow> npfloat" where
  "time_delta p0 p1 =
     py_max (Fin 1) (fsub (Fin (get_or (timestamp p1) 0)) (Fin (get_or (timestamp p0) 0)))"

text \<open>The body of the velocity loop: the velocity and the distance it appends.\<close>

definition velocity_step :: "point list \<Rightarrow> nat \<Rightarrow> error + (npfloat \<times> npfloat)" where
  "velocity_step pts i =
     bind_err (get_item pts (i - 1)) (\<lambda>p0.
     bind_err (get_item pts i) (\<lambda>p1.
       let dt = time_delta p0 p1;
           dx = fsub (Fin (get_or (point_x p1) 0)) (Fin (get_or (point_x p0) 0));
           dy = fsub (Fin (get_or (point_y p1) 0)) (Fin (get_or (point_y p0) 0));
           dist = fsqrt (fadd (fmul dx dx) (fmul dy dy));
           velocity = (if fgt dt (Fin 0) then fdiv dist dt else Fin 0)
       in Inr (velocity, dist)))"

text \<open>The body of the acceleration loop, over the velocities of the stroke.\<close>

definition acceleration_step :: "point list \<Rightarrow> npfloat list \<Rightarrow> nat \<Rightarrow> error + npfloat" where
  "acceleration_step pts stroke_velocities i =
     bind_err (get_item pts (i + 1)) (\<lambda>q1.
     bind_err (get_item pts i) (\<lambda>q0.
       let dt = time_delta q0 q1 in
       if fgt dt (Fin 0) then
         bind_err (get_item stroke_velocities i) (\<lambda>v1.
         bind_err (get_item stroke_velocities (i - 1)) (\<lambda>v0.
           Inr (fdiv (fsub v1 v0) dt)))
       else Inr (Fin 0)))"

text \<open>The body of the jerk loop, over the accelerations of the stroke.\<close>

definition jerk_step :: "point list \<Rightarrow> npfloat list \<Rightarrow> nat \<Rightarrow> error + npfloat" where
  "jerk_step pts stroke_accelerations i =
     bind_err (get_item pts (i + 2)) (\<lambda>q1.
     bind_err (get_item pts (i + 1)) (\<lambda>q0.
       let dt = time_delta q0 q1 in
       if fgt dt (Fin 0) then
         bind_err (get_item stroke_accelerations i) (\<lambda>a1.
         bind_err (get_item stroke_accelerations (i - 1)) (\<lambda>a0.
           Inr (fdiv (fsub a1 a0) dt)))
       else Inr (Fin 0)))"

text \<open>The four lists that the loop over the strokes extends.\<close>

record kinematic_samples =
  velocities :: "npfloat list"
  accelerations :: "npfloat list"
  jerks :: "npfloat list"
  path_lengths :: "npfloat list"

text \<open>One round of the loop over the strokes.\<close>

definition kinematic_stroke :: "stroke \<Rightarrow> kinematic_samples \<Rightarrow> error + kinematic_samples" where
  "kinematic_stroke s acc =
     (let pts = get_or (points s) [] in
      if length pts < 2 then Inr acc
      else
        bind_err (collect (velocity_step pts) [1..<length pts]) (\<lambda>steps.
          let stroke_velocities = map fst steps;
              acc1 = acc\<lparr>velocities := velocities acc @ stroke_velocities,
                         path_lengths := path_lengths acc @ map snd steps\<rparr>
          in
          if length stroke_velocities \<ge> 2 then
            bind_err (collect (acceleration_step pts stroke_velocities)
                        [1..<length stroke_velocities]) (\<lambda>stroke_accelerations.
              let acc2 = acc1\<lparr>accelerations := accelerations acc1 @ stroke_accelerations\<rparr> in
              if length stroke_accelerations \<ge> 2 then
                bind_err (collect (jerk_step pts stroke_accelerations)
                            [1..<length stroke_accelerations]) (\<lambda>stroke_jerks.
                  Inr (acc2\<lparr>jerks := jerks acc2 @ stroke_jerks\<rparr>))
              else Inr acc2)
          else Inr acc1))"

fun kinematic_loop :: "stroke list \<Rightarrow> kinematic_samples \<Rightarrow> error + kinematic_samples" where
  "kinematic_loop [] acc = Inr acc"
| "kinematic_loop (s # rest) acc = bind_err (kinematic_stroke s acc) (kinematic_loop rest)"

text \<open>\<^verbatim>\<open>np.max(xs) if xs else 0\<close>\<close>

definition max_or_zero :: "npfloat list \<Rightarrow> error + npfloat" where
  "max_or_zero xs = (if xs \<noteq> [] then np_max xs else Inr (Fin 0))"

definition mean_or_zero :: "npfloat list \<Rightarrow> npfloat" where
  "mean_or_zero xs = (if xs \<noteq> [] then np_mean xs else Fin 0)"

definition std_or_zero :: "npfloat list \<Rightarrow> npfloat" where
  "std_or_zero xs = (if xs \<noteq> [] then np_std xs else Fin 0)"

definition compute_kinematic_features ::
    "feature_engineer \<Rightarrow> stroke list \<Rightarrow> error + features" where
  "compute_kinematic_features self strks =
     (if strks = [] then Inr empty_kinematic_features
      else
        bind_err (kinematic_loop strks
            \<lparr>velocities = [], accelerations = [], jerks = [], path_lengths = []\<rparr>) (\<lambda>acc.
        bind_err (max_or_zero (velocities acc)) (\<lambda>velocity_max.
          Inr (map_of
            [(''velocity_mean'', mean_or_zero (velocities acc)),
             (''velocity_std'', std_or_zero (velocities acc)),
             (''velocity_max'', velocity_max),
             (''acceleration_mean'', mean_or_zero (accelerations acc)),
             (''acceleration_std'', std_or_zero (accelerations acc)),
             (''jerk_mean'', mean_or_zero (jerks acc)),
             (''jerk_std'', std_or_zero (jerks acc)),
             (''path_length_total'', py_sum (path_lengths acc)),
             (''path_length_mean'', mean_or_zero (path_lengths acc))]))))"

subsection \<open>compute_spatial_features\<close>

text \<open>The list \<^verbatim>\<open>all_points\<close> of the pairs \<^verbatim>\<open>(p.get('x', 0), p.get('y', 0))\<close>.\<close>

definition all_points :: "stroke list \<Rightarrow> (npfloat \<times> npfloat) list" where
  "all_points strks = concat (map (\<lambda>s.
       map (\<lambda>p. (Fin (get_or (point_x p) 0), Fin (get_or (point_y p) 0)))
           (get_or (points s) [])) strks)"

text \<open>\<^verbatim>\<open>canvas_size.get(key, default)\<close>\<close>

definition canvas_get :: "canvas \<Rightarrow> string \<Rightarrow> real \<Rightarrow> npfloat" where
  "canvas_get canvas_size key d = Fin (get_or (canvas_size key) d)"

definition compute_spatial_features ::
    "feature_engineer \<Rightarrow> stroke list \<Rightarrow> canvas \<Rightarrow> error + features" where
  "compute_spatial_features self strks canvas_size =
     (if strks = [] \<or> canvas_size = Map.empty then Inr empty_spatial_features
      else
        let pts = all_points strks in
        if pts = [] then Inr empty_spatial_features
        else
          bind_err (np_min (map fst pts)) (\<lambda>min_x.
          bind_err (np_min (map snd pts)) (\<lambda>min_y.
          bind_err (np_max (map fst pts)) (\<lambda>max_x.
          bind_err (np_max (map snd pts)) (\<lambda>max_y.
            let center_x = np_mean (map fst pts);
                center_y = np_mean (map snd pts);
                canvas_center_x = fdiv (canvas_get canvas_size ''width'' 0) (Fin 2);
                canvas_center_y = fdiv (canvas_get canvas_size ''height'' 0) (Fin 2)
            in Inr (map_of
              [(''bounding_box_width'', fsub max_x min_x),
               (''bounding_box_height'', fsub max_y min_y),
               (''bounding_box_area'', fmul (fsub max_x min_x) (fsub max_y min_y)),
               (''canvas_coverage'',
                  fdiv (fmul (fsub max_x min_x) (fsub max_y min_y))
                       (fmul (canvas_get canvas_size ''width'' 1)
                             (canvas_get canvas_size ''height'' 1)))]
              ++ map_of
              [(''center_offset_x'', fabs (fsub center_x canvas_center_x)),
               (''center_offset_y'', fabs (fsub center_y canvas_center_y)),
               (''center_offset_total'',
                  fsqrt (fadd (fmul (fsub center_x canvas_center_x)
                                    (fsub center_x canvas_center_x))
                              (fmul (fsub center_y canvas_center_y)
                                    (fsub center_y canvas_center_y))))]))))))"

subsection \<open>compute_temporal_features\<close>

text \<open>
  The durations \<^verbatim>\<open>endTime - startTime\<close> of the strokes that have both times.
  \<^verbatim>\<open>DataLoader._compute_stroke_features\<close> builds the same list with the same loop.
\<close>

definition stroke_durations :: "stroke list \<Rightarrow> npfloat list" where
  "stroke_durations strks = concat (map (\<lambda>s.
       case startTime s of None \<Rightarrow> []
       | Some t0 \<Rightarrow> (case endTime s of None \<Rightarrow> []
           | Some t1 \<Rightarrow> [fsub (Fin t1) (Fin t0)])) strks)"

text \<open>The body of the loop over the pauses: what it appends for the index \<open>i\<close>.\<close>

definition pause_step :: "stroke list \<Rightarrow> nat \<Rightarrow> error + npfloat list" where
  "pause_step strks i =
     bind_err (get_item strks (i - 1)) (\<lambda>prev_stroke.
     bind_err (get_item strks i) (\<lambda>curr_stroke.
       Inr (case endTime prev_stroke of None \<Rightarrow> []
            | Some t_end \<Rightarrow> (case startTime curr_stroke of None \<Rightarrow> []
                | Some t_start \<Rightarrow> [py_max (Fin 0) (fsub (Fin t_start) (Fin t_end))]))))"

definition stroke_pauses :: "stroke list \<Rightarrow> error + npfloat list" where
  "stroke_pauses strks =
     bind_err (collect (pause_step strks) [1..<length strks]) (\<lambda>steps. Inr (concat steps))"

definition compute_temporal_features ::
    "feature_engineer \<Rightarrow> stroke list \<Rightarrow> error + features" where
  "compute_temporal_features self strks =
     (if strks = [] then Inr empty_temporal_features
      else
        let durations = stroke_durations strks in
        bind_err (stroke_pauses strks) (\<lambda>pauses.
        bind_err (max_or_zero durations) (\<lambda>duration_max.
        bind_err (max_or_zero pauses) (\<lambda>pause_max.
          Inr (map_of
            [(''stroke_duration_mean'', mean_or_zero durations),
             (''stroke_duration_std'', std_or_zero durations),
             (''stroke_duration_max'', duration_max),
             (''inter_stroke_pause_mean'', mean_or_zero pauses),
             (''inter_stroke_pause_std'', std_or_zero pauses),
             (''inter_stroke_pause_max'', pause_max),
             (''total_pause_time'', py_sum pauses)])))))"

subsection \<open>compute_pressure_features\<close>

text \<open>
  The pressures of the points that have one, in order.
  \<^verbatim>\<open>DataLoader._compute_stroke_features\<close> builds the same list with the same loop.
\<close>

definition stroke_pressures :: "stroke list \<Rightarrow> npfloat list" where
  "stroke_pressures strks = concat (map (\<lambda>s.
       concat (map (\<lambda>p. case pressure p of None \<Rightarrow> [] | Some v \<Rightarrow> [Fin v])
                   (get_or (points s) []))) strks)"

definition compute_pressure_features ::
    "feature_engineer \<Rightarrow> stroke list \<Rightarrow> error + features" where
  "compute_pressure_features self strks =
     (let pressures = stroke_pressures strks in
      if pressures = [] then Inr empty_pressure_features
      else
        bind_err (np_min pressures) (\<lambda>pressure_min.
        bind_err (np_max pressures) (\<lambda>pressure_max.
          Inr (map_of
            [(''pressure_mean'', np_mean pressures),
             (''pressure_std'', np_std pressures),
             (''pressure_min'', pressure_min),
             (''pressure_max'', pressure_max),
             (''pressure_range'', fsub pressure_max pressure_min),
             (''pressure_cv'',
                if fgt (np_mean pressures) (Fin 0)
                then fdiv (np_std pressures) (np_mean pressures) else Fin 0)]))))"

section \<open>DataLoader\<close>

text \<open>A value of the record of a session: a string, an integer or a float.\<close>

datatype pyval = PStr string | PInt int | PNum npfloat

type_synonym row = "string \<rightharpoonup> pyval"

record data_loader =
  data_dir :: string
  sessions :: "session list"

definition compute_stroke_features :: "data_loader \<Rightarrow> stroke list \<Rightarrow> error + row" where
  "compute_stroke_features self strks =
     (if strks = [] then Inr Map.empty
      else
        let f0 = [''stroke_count'' \<mapsto> PInt (int (length strks)),
                  ''total_points'' \<mapsto>
                     PInt (int (sum_list (map (\<lambda>s. length (get_or (points s) [])) strks)))];
            durations = stroke_durations strks;
            f1 = (if durations \<noteq> []
                  then f0(''stroke_duration_mean'' \<mapsto> PNum (np_mean durations),
                          ''stroke_duration_std'' \<mapsto> PNum (np_std durations),
                          ''total_drawing_time'' \<mapsto> PNum (py_sum durations))
                  else f0);
            pressures = stroke_pressures strks
        in
        if pressures \<noteq> [] then
          bind_err (np_min pressures) (\<lambda>pressure_min.
          bind_err (np_max pressures) (\<lambda>pressure_max.
            Inr (f1(''pressure_mean'' \<mapsto> PNum (np_mean pressures),
                    ''pressure_std'' \<mapsto> PNum (np_std pressures),
                    ''pressure_min'' \<mapsto> PNum pressure_min,
                    ''pressure_max'' \<mapsto> PNum pressure_max))))
        else Inr f1)"

definition extract_features :: "data_loader \<Rightarrow> session \<Rightarrow> error + row" where
  "extract_features self s =
     (let feats = [''session_id'' \<mapsto> PStr (get_or (sid s) ''unknown''),
                   ''test_type'' \<mapsto> PStr (get_or (testType s) ''unknown''),
                   ''created_at'' \<mapsto> PInt (get_or (createdAt s) 0)];
          d = get_or (data s) \<lparr>strokes = None, canvasSize = None\<rparr>
      in case strokes d of
           None \<Rightarrow> Inr feats
         | Some strks \<Rightarrow>
             bind_err (compute_stroke_features self strks) (\<lambda>stroke_feats.
               Inr (feats ++ stroke_feats)))"

text \<open>
  What \<^verbatim>\<open>json.load\<close> makes of one file of the data directory: a list of sessions,
  one session, or an exception, which \<^verbatim>\<open>load_sessions\<close> logs and passes over.
\<close>

datatype json_file = JsonList "session list" | JsonObject session | Unreadable

fun file_sessions :: "json_file \<Rightarrow> session list" where
  "file_sessions (JsonList ss) = ss"
| "file_sessions (JsonObject s) = [s]"
| "file_sessions Unreadable = []"

definition load_sessions :: "json_file list \<Rightarrow> data_loader \<Rightarrow> data_loader" where
  "load_sessions files self = self\<lparr>sessions := sessions self @ concat (map file_sessions files)\<rparr>"

text \<open>
  \<^verbatim>\<open>create_dataset\<close>: the rows handed to the data frame, one for each session in
  order, and the loader as the call leaves it.
\<close>

definition create_dataset ::
    "json_file list \<Rightarrow> data_loader \<Rightarrow> (error + row list) \<times> data_loader" where
  "create_dataset files self =
     (let self1 = (if sessions self = [] then load_sessions files self else self)
      in (collect (extract_features self1) (sessions self1), self1))"

section \<open>Reading a result\<close>

definition feature_of :: "error + ('k \<rightharpoonup> 'v) \<Rightarrow> 'k \<Rightarrow> 'v option" where
  "feature_of r k = (case r of Inl e \<Rightarrow> None | Inr f \<Rightarrow> f k)"

definition keys_of :: "error + ('k \<rightharpoonup> 'v) \<Rightarrow> 'k set option" where
  "keys_of r = (case r of Inl e \<Rightarrow> None | Inr f \<Rightarrow> Some (dom f))"

section \<open>Concrete sessions\<close>

text \<open>
  One stroke through (0,0) at time 0, (3,4) at time 100 and (6,8) at time 200, with
  the pressure 0.5 everywhere, on a canvas of 500 by 500.
\<close>

definition scenario_points :: "point list" where
  "scenario_points =
     [\<lparr>point_x = Some 0, point_y = Some 0, timestamp = Some 0, pressure = Some (1/2)\<rparr>,
      \<lparr>point_x = Some 3, point_y = Some 4, timestamp = Some 100, pressure = Some (1/2)\<rparr>,
      \<lparr>point_x = Some 6, point_y = Some 8, timestamp = Some 200, pressure = Some (1/2)\<rparr>]"

definition scenario_strokes :: "stroke list" where
  "scenario_strokes = [\<lparr>points = Some scenario_points, startTime = Some 0, endTime = Some 200\<rparr>]"

definition scenario_canvas :: canvas where
  "scenario_canvas = [''width'' \<mapsto> 500, ''height'' \<mapsto> 500]"



definition no_samples :: kinematic_samples where
  "no_samples = \<lparr>velocities = [], accelerations = [], jerks = [], path_lengths = []\<rparr>"





text \<open>A loader, a session with no entry at all, and sessions with and without strokes.\<close>

definition empty_loader :: data_loader where
  "empty_loader = \<lparr>data_dir = ''data/raw'', sessions = []\<rparr>"

definition bare_session :: session where
  "bare_session = \<lparr>sid = None, testType = None, createdAt = None, data = None\<rparr>"

definition scenario_session :: session where
  "scenario_session = \<lparr>sid = Some ''s1'', testType = Some ''clockDrawing'',
     createdAt = Some 1700000000000,
     data = Some \<lparr>strokes = Some scenario_strokes, canvasSize = Some scenario_canvas\<rparr>\<rparr>"

definition no_strokes_session :: session where
  "no_strokes_session = \<lparr>sid = Some ''s0'', testType = Some ''clockDrawing'',
     createdAt = Some 1700000000000,
     data = Some \<lparr>strokes = Some [], canvasSize = Some scenario_canvas\<rparr>\<rparr>"

text \<open>One stroke of a single point, without times and without pressure.\<close>

definition single_point_strokes :: "stroke list" where
  "single_point_strokes =
     [\<lparr>points = Some
         [\<lparr>point_x = Some 10, point_y = Some 20, timestamp = Some 0, pressure = None\<rparr>],
       startTime = None, endTime = None\<rparr>]"

section \<open>Finite arithmetic and the loops\<close>


lemma bind_err_Inr [simp]: "bind_err (Inr v) f = f v"
  by (simp add: bind_err_def)

lemma bind_err_Inl [simp]: "bind_err (Inl e) f = Inl e"
  by (simp add: bind_err_def)

lemma get_item_in_range: "i < length xs \<Longrightarrow> get_item xs i = Inr (xs ! i)"
  by (simp add: get_item_def)

lemma collect_map:
  "(\<And>i. i \<in> set idx \<Longrightarrow> body i = Inr (g i)) \<Longrightarrow> collect body idx = Inr (map g idx)"
  by (induction idx) simp_all

lemma fsub_Fin [simp]: "fsub (Fin a) (Fin b) = Fin (a - b)"
  by (simp add: fsub_def)

lemma py_max_Fin [simp]: "py_max (Fin a) (Fin b) = Fin (max a b)"
  by (simp add: py_max_def max_def)

lemma fmax_Fin [simp]: "fmax (Fin a) (Fin b) = Fin (max a b)"
  by (simp add: fmax_def max_def)

lemma fmin_Fin [simp]: "fmin (Fin a) (Fin b) = Fin (min a b)"
  by (simp add: fmin_def min_def)

lemma fdiv_Fin_nonzero: "b \<noteq> 0 \<Longrightarrow> fdiv (Fin a) (Fin b) = Fin (a / b)"
  by simp

lemma fsqrt_Fin_nonneg: "0 \<le> a \<Longrightarrow> fsqrt (Fin a) = Fin (sqrt a)"
  by simp

lemma foldl_fadd_Fin: "foldl fadd (Fin a) (map Fin rs) = Fin (a + sum_list rs)"
  by (induction rs arbitrary: a) (simp_all add: add.assoc)

lemma py_sum_Fin: "py_sum (map Fin rs) = Fin (sum_list rs)"
  by (simp add: py_sum_def foldl_fadd_Fin)

lemma np_mean_Fin:
  "rs \<noteq> [] \<Longrightarrow> np_mean (map Fin rs) = Fin (sum_list rs / real (length rs))"
  by (simp add: np_mean_def py_sum_Fin)

lemma foldl_fmax_Fin: "foldl fmax (Fin a) (map Fin rs) = Fin (foldl max a rs)"
  by (induction rs arbitrary: a) simp_all

lemma foldl_fmin_Fin: "foldl fmin (Fin a) (map Fin rs) = Fin (foldl min a rs)"
  by (induction rs arbitrary: a) simp_all

lemma np_max_Fin: "np_max (map Fin (r # rs)) = Inr (Fin (foldl max r rs))"
  by (simp add: np_max_def foldl_fmax_Fin)

lemma np_min_Fin: "np_min (map Fin (r # rs)) = Inr (Fin (foldl min r rs))"
  by (simp add: np_min_def foldl_fmin_Fin)


lemma sum_list_squares_nonneg: "0 \<le> sum_list (map (\<lambda>r. (r - m) * (r - m)) (rs::real list))"
  by (induction rs) simp_all

lemma np_std_Fin:
  assumes "rs \<noteq> []"
  shows "\<exists>sd. 0 \<le> sd \<and> np_std (map Fin rs) = Fin sd"
proof -
  let ?m = "sum_list rs / real (length rs)"
  let ?sq = "map (\<lambda>r. (r - ?m) * (r - ?m)) rs"
  have m: "np_mean (map Fin rs) = Fin ?m"
    using assms by (rule np_mean_Fin)
  have sq: "map (\<lambda>v. fmul (fsub v (Fin ?m)) (fsub v (Fin ?m))) (map Fin rs) = map Fin ?sq"
    by simp
  have nonneg: "0 \<le> sum_list ?sq"
    by (rule sum_list_squares_nonneg)
  have "np_mean (map Fin ?sq) = Fin (sum_list ?sq / real (length rs))"
    using assms np_mean_Fin [of ?sq] by simp
  moreover have var: "0 \<le> sum_list ?sq / real (length rs)"
    using nonneg by (intro divide_nonneg_nonneg) simp_all
  ultimately have "np_std (map Fin rs) = Fin (sqrt (sum_list ?sq / real (length rs)))"
    by (simp add: np_std_def m sq not_less del: map_map)
  moreover have "0 \<le> sqrt (sum_list ?sq / real (length rs))"
    using var by simp
  ultimately show ?thesis by blast
qed

lemma finite_floats_map: "set xs \<subseteq> range Fin \<Longrightarrow> \<exists>rs. xs = map Fin rs"
  unfolding ex_map_conv by auto

lemma mean_or_zero_finite:
  assumes "set xs \<subseteq> range Fin"
  shows "\<exists>r. mean_or_zero xs = Fin r"
proof -
  obtain rs where "xs = map Fin rs" using assms finite_floats_map by blast
  then show ?thesis by (cases "rs = []") (simp_all add: mean_or_zero_def np_mean_Fin)
qed

lemma std_or_zero_finite:
  assumes "set xs \<subseteq> range Fin"
  shows "\<exists>r. std_or_zero xs = Fin r"
proof -
  obtain rs where rs: "xs = map Fin rs" using assms finite_floats_map by blast
  show ?thesis
  proof (cases "rs = []")
    case True
    with rs show ?thesis by (simp add: std_or_zero_def)
  next
    case False
    then obtain sd where "np_std (map Fin rs) = Fin sd" using np_std_Fin by blast
    with rs False show ?thesis by (simp add: std_or_zero_def)
  qed
qed

lemma max_or_zero_finite:
  assumes "set xs \<subseteq> range Fin"
  shows "\<exists>r. max_or_zero xs = Inr (Fin r)"
proof -
  obtain rs where rs: "xs = map Fin rs" using assms finite_floats_map by blast
  show ?thesis
  proof (cases rs)
    case Nil
    with rs show ?thesis by (simp add: max_or_zero_def)
  next
    case (Cons r rs')
    with rs show ?thesis using np_max_Fin [of r rs'] by (simp add: max_or_zero_def)
  qed
qed

lemma py_sum_finite:
  assumes "set xs \<subseteq> range Fin"
  shows "\<exists>r. py_sum xs = Fin r"
proof -
  obtain rs where "xs = map Fin rs" using assms finite_floats_map by blast
  then show ?thesis by (simp add: py_sum_Fin)
qed

lemma time_delta_Fin:
  "time_delta p0 p1 = Fin (max 1 (get_or (timestamp p1) 0 - get_or (timestamp p0) 0))"
  by (simp add: time_delta_def)

lemma max_one_pos: "0 < max (1::real) d"
  by simp

lemma max_one_nonzero: "max (1::real) d \<noteq> 0"
  using max_one_pos [of d] by linarith

lemma velocity_value:
  "(let dt = Fin (max 1 d); dx = Fin a; dy = Fin b;
        dist = fsqrt (fadd (fmul dx dx) (fmul dy dy));
        velocity = (if fgt dt (Fin 0) then fdiv dist dt else Fin 0)
    in (velocity, dist)) = (Fin (sqrt (a * a + b * b) / max 1 d), Fin (sqrt (a * a + b * b)))"
proof -
  have "\<not> a * a + b * b < 0" by (rule not_sum_squares_lt_zero)
  then show ?thesis
    using max_one_pos [of d] max_one_nonzero [of d] by (simp add: Let_def)
qed

lemma velocity_step_value:
  assumes "0 < i" "i < length pts"
  shows "velocity_step pts i =
     Inr (Fin (sqrt ((get_or (point_x (pts ! i)) 0 - get_or (point_x (pts ! (i - 1))) 0) *
                     (get_or (point_x (pts ! i)) 0 - get_or (point_x (pts ! (i - 1))) 0) +
                     (get_or (point_y (pts ! i)) 0 - get_or (point_y (pts ! (i - 1))) 0) *
                     (get_or (point_y (pts ! i)) 0 - get_or (point_y (pts ! (i - 1))) 0)) /
               max 1 (get_or (timestamp (pts ! i)) 0 - get_or (timestamp (pts ! (i - 1))) 0)),
          Fin (sqrt ((get_or (point_x (pts ! i)) 0 - get_or (point_x (pts ! (i - 1))) 0) *
                     (get_or (point_x (pts ! i)) 0 - get_or (point_x (pts ! (i - 1))) 0) +
                     (get_or (point_y (pts ! i)) 0 - get_or (point_y (pts ! (i - 1))) 0) *
                     (get_or (point_y (pts ! i)) 0 - get_or (point_y (pts ! (i - 1))) 0))))"
proof -
  have "i - 1 < length pts" using assms by simp
  then have "get_item pts (i - 1) = Inr (pts ! (i - 1))" "get_item pts i = Inr (pts ! i)"
    using assms by (simp_all only: get_item_in_range)
  then show ?thesis
    unfolding velocity_step_def
    by (simp only: bind_err_Inr time_delta_Fin fsub_Fin Let_def)
       (simp add: not_sum_squares_lt_zero max_one_nonzero max_one_pos)
qed

lemma velocity_step_finite:
  "0 < i \<Longrightarrow> i < length pts \<Longrightarrow> \<exists>v d. velocity_step pts i = Inr (Fin v, Fin d)"
  using velocity_step_value by blast

lemma derivative_step_finite:
  assumes "get_item pts j = Inr q1" "get_item pts k = Inr q0"
    and "i < length xs" "set xs \<subseteq> range Fin"
  shows "\<exists>a. bind_err (get_item pts j) (\<lambda>q1.
     bind_err (get_item pts k) (\<lambda>q0.
       let dt = time_delta q0 q1 in
       if fgt dt (Fin 0) then
         bind_err (get_item xs i) (\<lambda>v1.
         bind_err (get_item xs (i - 1)) (\<lambda>v0.
           Inr (fdiv (fsub v1 v0) dt)))
       else Inr (Fin 0))) = Inr (Fin a)"
proof -
  have "i - 1 < length xs" using assms(3) by simp
  then have "xs ! (i - 1) \<in> range Fin" "xs ! i \<in> range Fin"
    using assms(3,4) nth_mem by blast+
  then obtain r0 r1 where "xs ! (i - 1) = Fin r0" "xs ! i = Fin r1" by blast
  then show ?thesis
    using assms(1,2,3) \<open>i - 1 < length xs\<close> max_one_pos max_one_nonzero
    by (simp add: get_item_in_range time_delta_Fin Let_def)
qed

lemma acceleration_step_finite:
  assumes "i + 1 < length pts" "i < length sv" "set sv \<subseteq> range Fin"
  shows "\<exists>a. acceleration_step pts sv i = Inr (Fin a)"
  unfolding acceleration_step_def
  using assms by (intro derivative_step_finite) (simp_all add: get_item_in_range)

lemma jerk_step_finite:
  assumes "i + 2 < length pts" "i < length sa" "set sa \<subseteq> range Fin"
  shows "\<exists>a. jerk_step pts sa i = Inr (Fin a)"
  unfolding jerk_step_def
  using assms by (intro derivative_step_finite) (simp_all add: get_item_in_range)

lemma collect_exists:
  "(\<And>i. i \<in> set idx \<Longrightarrow> \<exists>v. body i = Inr v \<and> P v) \<Longrightarrow>
     \<exists>vs. collect body idx = Inr vs \<and> length vs = length idx \<and> (\<forall>v\<in>set vs. P v)"
proof (induction idx)
  case Nil
  then show ?case by simp
next
  case (Cons i rest)
  from Cons.prems obtain v where v: "body i = Inr v" "P v" by auto
  from Cons obtain vs where "collect body rest = Inr vs" "length vs = length rest" "\<forall>v\<in>set vs. P v"
    by auto
  with v show ?case by simp
qed

lemma collect_nth:
  "collect body idx = Inr vs \<Longrightarrow>
     length vs = length idx \<and> (\<forall>k<length idx. body (idx ! k) = Inr (vs ! k))"
proof (induction idx arbitrary: vs)
  case Nil
  then show ?case by simp
next
  case (Cons i rest)
  from Cons.prems obtain v ws where parts: "body i = Inr v" "collect body rest = Inr ws"
      "vs = v # ws"
    by (auto simp: bind_err_def split: sum.splits)
  from Cons.IH [OF parts(2)] parts(1,3) show ?case
    by (auto simp: nth_Cons split: nat.splits)
qed

lemma kinematic_stroke_total:
  "\<exists>vs as js ds. set vs \<subseteq> range Fin \<and> set as \<subseteq> range Fin \<and>
      set js \<subseteq> range Fin \<and> set ds \<subseteq> range Fin \<and>
      length vs = length (get_or (points s) []) - 1 \<and>
      length as = length (get_or (points s) []) - 2 \<and>
      length js = length (get_or (points s) []) - 3 \<and>
      length ds = length (get_or (points s) []) - 1 \<and>
      (2 \<le> length (get_or (points s) []) \<longrightarrow>
         collect (velocity_step (get_or (points s) [])) [1..<length (get_or (points s) [])]
           = Inr (zip vs ds)) \<and>
      kinematic_stroke s acc = Inr (acc\<lparr>velocities := velocities acc @ vs,
        accelerations := accelerations acc @ as, jerks := jerks acc @ js,
        path_lengths := path_lengths acc @ ds\<rparr>)"
proof -
  define pts where "pts = get_or (points s) []"
  show ?thesis
  proof (cases "length pts < 2")
    case True
    then have "kinematic_stroke s acc = Inr (acc\<lparr>velocities := velocities acc @ [],
        accelerations := accelerations acc @ [], jerks := jerks acc @ [],
        path_lengths := path_lengths acc @ []\<rparr>)"
      by (simp add: kinematic_stroke_def pts_def)
    with True show ?thesis
      by (intro exI [of _ "[]"]) (simp add: pts_def [symmetric])
  next
    case False
    have "\<exists>steps. collect (velocity_step pts) [1..<length pts] = Inr steps \<and>
        length steps = length [1..<length pts] \<and>
        (\<forall>p\<in>set steps. \<exists>v d. p = (Fin v, Fin d))"
    proof (rule collect_exists)
      fix i assume "i \<in> set [1..<length pts]"
      then have "0 < i" "i < length pts" by auto
      then show "\<exists>p. velocity_step pts i = Inr p \<and> (\<exists>v d. p = (Fin v, Fin d))"
        using velocity_step_finite by blast
    qed
    then obtain steps where steps: "collect (velocity_step pts) [1..<length pts] = Inr steps"
        "length steps = length pts - 1" "\<forall>p\<in>set steps. \<exists>v d. p = (Fin v, Fin d)"
      by auto
    define sv where "sv = map fst steps"
    define ds where "ds = map snd steps"
    have sv: "set sv \<subseteq> range Fin" "length sv = length pts - 1"
      using steps by (auto simp: sv_def)
    have ds: "set ds \<subseteq> range Fin" "length ds = length pts - 1"
      using steps by (auto simp: ds_def)
    have len: "length steps = length sv"
      by (simp add: sv_def)
    have zipped: "collect (velocity_step pts) [1..<length pts] = Inr (zip sv ds)"
      using steps(1) by (simp add: sv_def ds_def zip_map_fst_snd)
    show ?thesis
    proof (cases "2 \<le> length sv")
      case no_acc: False
      then have "kinematic_stroke s acc = Inr (acc\<lparr>velocities := velocities acc @ sv,
          accelerations := accelerations acc @ [], jerks := jerks acc @ [],
          path_lengths := path_lengths acc @ ds\<rparr>)"
        using False steps(1)
        by (simp add: kinematic_stroke_def pts_def [symmetric] Let_def sv_def ds_def)
      with no_acc sv ds zipped show ?thesis
        by - (rule exI [of _ sv], rule exI [of _ "[]"], rule exI [of _ "[]"], rule exI [of _ ds],
            simp add: pts_def [symmetric] numeral_2_eq_2 numeral_3_eq_3)
    next
      case acc: True
      have "\<exists>sa. collect (acceleration_step pts sv) [1..<length sv] = Inr sa \<and>
          length sa = length [1..<length sv] \<and> (\<forall>a\<in>set sa. a \<in> range Fin)"
      proof (rule collect_exists)
        fix i assume "i \<in> set [1..<length sv]"
        then have "i + 1 < length pts" "i < length sv" using sv(2) by auto
        then show "\<exists>v. acceleration_step pts sv i = Inr v \<and> v \<in> range Fin"
          using acceleration_step_finite [OF _ _ sv(1)] by blast
      qed
      then obtain sa where sa: "collect (acceleration_step pts sv) [1..<length sv] = Inr sa"
          "length sa = length sv - 1" "set sa \<subseteq> range Fin"
        by auto
      show ?thesis
      proof (cases "2 \<le> length sa")
        case no_jerk: False
        then have "kinematic_stroke s acc = Inr (acc\<lparr>velocities := velocities acc @ sv,
            accelerations := accelerations acc @ sa, jerks := jerks acc @ [],
            path_lengths := path_lengths acc @ ds\<rparr>)"
          using False acc steps(1) sa(1) len
          by (simp add: kinematic_stroke_def pts_def [symmetric] Let_def
                sv_def [symmetric] ds_def [symmetric])
        with no_jerk sv ds sa zipped show ?thesis
          by - (rule exI [of _ sv], rule exI [of _ sa], rule exI [of _ "[]"], rule exI [of _ ds],
            simp add: pts_def [symmetric] numeral_2_eq_2 numeral_3_eq_3)
      next
        case jerk: True
        have "\<exists>sj. collect (jerk_step pts sa) [1..<length sa] = Inr sj \<and>
            length sj = length [1..<length sa] \<and> (\<forall>a\<in>set sj. a \<in> range Fin)"
        proof (rule collect_exists)
          fix i assume "i \<in> set [1..<length sa]"
          then have "i + 2 < length pts" "i < length sa" using sv(2) sa(2) by auto
          then show "\<exists>v. jerk_step pts sa i = Inr v \<and> v \<in> range Fin"
            using jerk_step_finite [OF _ _ sa(3)] by blast
        qed
        then obtain sj where sj: "collect (jerk_step pts sa) [1..<length sa] = Inr sj"
            "length sj = length sa - 1" "set sj \<subseteq> range Fin"
          by auto
        have "kinematic_stroke s acc = Inr (acc\<lparr>velocities := velocities acc @ sv,
            accelerations := accelerations acc @ sa, jerks := jerks acc @ sj,
            path_lengths := path_lengths acc @ ds\<rparr>)"
          using False acc jerk steps(1) sa(1) sj(1) len
          by (simp add: kinematic_stroke_def pts_def [symmetric] Let_def
                sv_def [symmetric] ds_def [symmetric])
        with sv ds sa sj zipped show ?thesis
          by - (rule exI [of _ sv], rule exI [of _ sa], rule exI [of _ sj], rule exI [of _ ds],
            simp add: pts_def [symmetric] numeral_2_eq_2 numeral_3_eq_3)
      qed
    qed
  qed
qed

lemma kinematic_loop_total:
  "\<exists>vs as js ds. set vs \<subseteq> range Fin \<and> set as \<subseteq> range Fin \<and>
      set js \<subseteq> range Fin \<and> set ds \<subseteq> range Fin \<and>
      kinematic_loop strks acc = Inr (acc\<lparr>velocities := velocities acc @ vs,
        accelerations := accelerations acc @ as, jerks := jerks acc @ js,
        path_lengths := path_lengths acc @ ds\<rparr>)"
proof (induction strks arbitrary: acc)
  case Nil
  have "kinematic_loop [] acc = Inr (acc\<lparr>velocities := velocities acc @ [],
        accelerations := accelerations acc @ [], jerks := jerks acc @ [],
        path_lengths := path_lengths acc @ []\<rparr>)"
    by simp
  then show ?case by (metis empty_set empty_subsetI)
next
  case (Cons s rest)
  obtain vs as js ds where first: "set vs \<subseteq> range Fin" "set as \<subseteq> range Fin"
      "set js \<subseteq> range Fin" "set ds \<subseteq> range Fin"
      "kinematic_stroke s acc = Inr (acc\<lparr>velocities := velocities acc @ vs,
        accelerations := accelerations acc @ as, jerks := jerks acc @ js,
        path_lengths := path_lengths acc @ ds\<rparr>)"
    using kinematic_stroke_total by blast
  define acc1 where "acc1 = acc\<lparr>velocities := velocities acc @ vs,
        accelerations := accelerations acc @ as, jerks := jerks acc @ js,
        path_lengths := path_lengths acc @ ds\<rparr>"
  obtain vs' as' js' ds' where more: "set vs' \<subseteq> range Fin" "set as' \<subseteq> range Fin"
      "set js' \<subseteq> range Fin" "set ds' \<subseteq> range Fin"
      "kinematic_loop rest acc1 = Inr (acc1\<lparr>velocities := velocities acc1 @ vs',
        accelerations := accelerations acc1 @ as', jerks := jerks acc1 @ js',
        path_lengths := path_lengths acc1 @ ds'\<rparr>)"
    using Cons.IH by blast
  have "kinematic_loop (s # rest) acc = Inr (acc\<lparr>velocities := velocities acc @ (vs @ vs'),
        accelerations := accelerations acc @ (as @ as'), jerks := jerks acc @ (js @ js'),
        path_lengths := path_lengths acc @ (ds @ ds')\<rparr>)"
    using first(5) more(5) by (simp add: acc1_def)
  moreover have "set (vs @ vs') \<subseteq> range Fin" "set (as @ as') \<subseteq> range Fin"
      "set (js @ js') \<subseteq> range Fin" "set (ds @ ds') \<subseteq> range Fin"
    using first more by simp_all
  ultimately show ?case by blast
qed

lemma compute_kinematic_features_total:
  "\<exists>f. compute_kinematic_features self strks = Inr f \<and>
     dom f = {''velocity_mean'', ''velocity_std'', ''velocity_max'', ''acceleration_mean'',
              ''acceleration_std'', ''jerk_mean'', ''jerk_std'', ''path_length_total'',
              ''path_length_mean''} \<and>
     (\<forall>k v. f k = Some v \<longrightarrow> v \<in> range Fin)"
proof (cases "strks = []")
  case True
  then show ?thesis
    by (auto simp: compute_kinematic_features_def empty_kinematic_features_def
          dom_map_of_conv_image_fst)
next
  case False
  let ?acc0 = "\<lparr>velocities = [], accelerations = [], jerks = [], path_lengths = []\<rparr>"
  obtain vs as js ds where fin: "set vs \<subseteq> range Fin" "set as \<subseteq> range Fin"
      "set js \<subseteq> range Fin" "set ds \<subseteq> range Fin"
      and loop: "kinematic_loop strks ?acc0 =
        Inr \<lparr>velocities = vs, accelerations = as, jerks = js, path_lengths = ds\<rparr>"
    using kinematic_loop_total [of strks ?acc0] by auto
  obtain vmax where vmax: "max_or_zero vs = Inr (Fin vmax)"
    using max_or_zero_finite [OF fin(1)] by blast
  have eq: "compute_kinematic_features self strks = Inr (map_of
            [(''velocity_mean'', mean_or_zero vs),
             (''velocity_std'', std_or_zero vs),
             (''velocity_max'', Fin vmax),
             (''acceleration_mean'', mean_or_zero as),
             (''acceleration_std'', std_or_zero as),
             (''jerk_mean'', mean_or_zero js),
             (''jerk_std'', std_or_zero js),
             (''path_length_total'', py_sum ds),
             (''path_length_mean'', mean_or_zero ds)])"
    using False loop vmax by (simp add: compute_kinematic_features_def)
  have vals: "mean_or_zero vs \<in> range Fin" "std_or_zero vs \<in> range Fin"
      "mean_or_zero as \<in> range Fin" "std_or_zero as \<in> range Fin"
      "mean_or_zero js \<in> range Fin" "std_or_zero js \<in> range Fin"
      "py_sum ds \<in> range Fin" "mean_or_zero ds \<in> range Fin"
    using fin mean_or_zero_finite std_or_zero_finite py_sum_finite by (metis rangeI)+
  let ?f = "map_of
            [(''velocity_mean'', mean_or_zero vs),
             (''velocity_std'', std_or_zero vs),
             (''velocity_max'', Fin vmax),
             (''acceleration_mean'', mean_or_zero as),
             (''acceleration_std'', std_or_zero as),
             (''jerk_mean'', mean_or_zero js),
             (''jerk_std'', std_or_zero js),
             (''path_length_total'', py_sum ds),
             (''path_length_mean'', mean_or_zero ds)]"
  have keys: "dom ?f = {''velocity_mean'', ''velocity_std'', ''velocity_max'',
      ''acceleration_mean'', ''acceleration_std'', ''jerk_mean'', ''jerk_std'',
      ''path_length_total'', ''path_length_mean''}"
    by (simp add: dom_map_of_conv_image_fst)
  have finite: "\<forall>k v. ?f k = Some v \<longrightarrow> v \<in> range Fin"
    using vals by (auto split: if_splits)
  show ?thesis
    using eq keys finite by blast
qed

section \<open>The kinematic extractor\<close>

text \<open>
  Claim C9. In the acceleration loop and in the jerk loop the reads \<^verbatim>\<open>points[i+1]\<close>
  and \<^verbatim>\<open>points[i+2]\<close> are in range for every stroke. A read out of range is the
  value \<open>Inl IndexError\<close> of the model, so the claim is that one round of the loop over the
  strokes always returns: a stroke of \<open>n\<close> points adds \<open>n - 1\<close> velocities,
  \<open>n - 2\<close> accelerations and \<open>n - 3\<close> jerks (subtraction stopping at zero),
  whatever the lists held before, and the extractor returns a record for every list of strokes.
\<close>

theorem kinematic_reads_in_bounds:
  "(\<exists>acc'. kinematic_stroke s acc = Inr acc' \<and>
      length (velocities acc') = length (velocities acc) + (length (get_or (points s) []) - 1) \<and>
      length (accelerations acc') =
        length (accelerations acc) + (length (get_or (points s) []) - 2) \<and>
      length (jerks acc') = length (jerks acc) + (length (get_or (points s) []) - 3)) \<and>
   (\<exists>f. compute_kinematic_features self strks = Inr f)"
proof
  obtain vs as js ds where lens: "length vs = length (get_or (points s) []) - 1"
      "length as = length (get_or (points s) []) - 2"
      "length js = length (get_or (points s) []) - 3"
    and run: "kinematic_stroke s acc = Inr (acc\<lparr>velocities := velocities acc @ vs,
        accelerations := accelerations acc @ as, jerks := jerks acc @ js,
        path_lengths := path_lengths acc @ ds\<rparr>)"
    using kinematic_stroke_total [of s acc] by (elim exE conjE) (rule that)
  let ?acc' = "acc\<lparr>velocities := velocities acc @ vs,
        accelerations := accelerations acc @ as, jerks := jerks acc @ js,
        path_lengths := path_lengths acc @ ds\<rparr>"
  have "length (velocities ?acc') = length (velocities acc) + (length (get_or (points s) []) - 1)"
    "length (accelerations ?acc') =
        length (accelerations acc) + (length (get_or (points s) []) - 2)"
    "length (jerks ?acc') = length (jerks acc) + (length (get_or (points s) []) - 3)"
    by (simp_all add: lens)
  with run show "\<exists>acc'. kinematic_stroke s acc = Inr acc' \<and>
      length (velocities acc') = length (velocities acc) + (length (get_or (points s) []) - 1) \<and>
      length (accelerations acc') =
        length (accelerations acc) + (length (get_or (points s) []) - 2) \<and>
      length (jerks acc') = length (jerks acc) + (length (get_or (points s) []) - 3)"
    by (intro exI [of _ ?acc'] conjI)
  show "\<exists>f. compute_kinematic_features self strks = Inr f"
    using compute_kinematic_features_total [of self strks] by (elim exE conjE) (rule exI)
qed


lemma sqrt_25: "sqrt 25 = 5"
  using real_sqrt_abs [of 5] by simp


section \<open>The temporal extractor\<close>

lemma pause_step_value:
  assumes "0 < i" "i < length strks"
  shows "pause_step strks i =
     Inr (case endTime (strks ! (i - 1)) of None \<Rightarrow> []
          | Some t_end \<Rightarrow> (case startTime (strks ! i) of None \<Rightarrow> []
              | Some t_start \<Rightarrow> [Fin (max 0 (t_start - t_end))]))"
proof -
  have "i - 1 < length strks" using assms by simp
  then show ?thesis
    using assms by (simp add: pause_step_def get_item_in_range split: option.splits)
qed

lemma stroke_pauses_nonneg:
  "\<exists>pauses. stroke_pauses strks = Inr pauses \<and> (\<forall>v\<in>set pauses. \<exists>p\<ge>0. v = Fin p) \<and>
     (\<forall>i. 0 < i \<and> i < length strks \<longrightarrow>
        (\<exists>vs. pause_step strks i = Inr vs \<and> set vs \<subseteq> set pauses))"
proof -
  have "\<exists>steps. collect (pause_step strks) [1..<length strks] = Inr steps \<and>
      length steps = length [1..<length strks] \<and>
      (\<forall>vs\<in>set steps. \<forall>v\<in>set vs. \<exists>p\<ge>0. v = Fin p)"
  proof (rule collect_exists)
    fix i assume "i \<in> set [1..<length strks]"
    then have "0 < i" "i < length strks" by auto
    then show "\<exists>vs. pause_step strks i = Inr vs \<and> (\<forall>v\<in>set vs. \<exists>p\<ge>0. v = Fin p)"
      by (auto simp: pause_step_value split: option.splits intro: max.cobounded1)
  qed
  then obtain steps where steps: "collect (pause_step strks) [1..<length strks] = Inr steps"
      "\<forall>vs\<in>set steps. \<forall>v\<in>set vs. \<exists>p\<ge>0. v = Fin p"
    by blast
  have run: "stroke_pauses strks = Inr (concat steps)"
    using steps(1) by (simp add: stroke_pauses_def)
  have vals: "\<forall>v\<in>set (concat steps). \<exists>p\<ge>0. v = Fin p"
    using steps(2) by auto
  have part: "\<exists>vs. pause_step strks i = Inr vs \<and> set vs \<subseteq> set (concat steps)"
    if "0 < i \<and> i < length strks" for i
  proof -
    have k: "i - 1 < length [1..<length strks]" "[1..<length strks] ! (i - 1) = i"
      using that by auto
    have "length steps = length [1..<length strks]"
      "pause_step strks ([1..<length strks] ! (i - 1)) = Inr (steps ! (i - 1))"
      using collect_nth [OF steps(1)] k(1) by blast+
    then have "pause_step strks i = Inr (steps ! (i - 1))" "steps ! (i - 1) \<in> set steps"
      using k by simp_all
    then show ?thesis by auto
  qed
  show ?thesis using run vals part by blast
qed


lemma stroke_durations_finite: "set (stroke_durations strks) \<subseteq> range Fin"
  by (auto simp: stroke_durations_def split: option.splits)

lemma compute_temporal_features_value:
  assumes "strks \<noteq> []" "stroke_pauses strks = Inr pauses" "set pauses \<subseteq> range Fin"
  shows "\<exists>dmax pmax. compute_temporal_features self strks = Inr (map_of
            [(''stroke_duration_mean'', mean_or_zero (stroke_durations strks)),
             (''stroke_duration_std'', std_or_zero (stroke_durations strks)),
             (''stroke_duration_max'', Fin dmax),
             (''inter_stroke_pause_mean'', mean_or_zero pauses),
             (''inter_stroke_pause_std'', std_or_zero pauses),
             (''inter_stroke_pause_max'', Fin pmax),
             (''total_pause_time'', py_sum pauses)])"
proof -
  obtain dmax where dmax: "max_or_zero (stroke_durations strks) = Inr (Fin dmax)"
    using max_or_zero_finite [OF stroke_durations_finite] by blast
  obtain pmax where pmax: "max_or_zero pauses = Inr (Fin pmax)"
    using max_or_zero_finite [OF assms(3)] by blast
  have "compute_temporal_features self strks = Inr (map_of
            [(''stroke_duration_mean'', mean_or_zero (stroke_durations strks)),
             (''stroke_duration_std'', std_or_zero (stroke_durations strks)),
             (''stroke_duration_max'', Fin dmax),
             (''inter_stroke_pause_mean'', mean_or_zero pauses),
             (''inter_stroke_pause_std'', std_or_zero pauses),
             (''inter_stroke_pause_max'', Fin pmax),
             (''total_pause_time'', py_sum pauses)])"
    using assms(1,2) dmax pmax by (simp add: compute_temporal_features_def Let_def)
  then show ?thesis by blast
qed



section \<open>The pressure extractor\<close>

lemma stroke_pressures_finite: "set (stroke_pressures strks) \<subseteq> range Fin"
  by (auto simp: stroke_pressures_def split: option.splits)

lemma compute_pressure_features_value:
  assumes "stroke_pressures strks = map Fin rs" "rs \<noteq> []"
  shows "\<exists>m sd lo hi. 0 \<le> sd \<and> np_mean (map Fin rs) = Fin m \<and> np_std (map Fin rs) = Fin sd \<and>
     compute_pressure_features self strks = Inr (map_of
            [(''pressure_mean'', Fin m),
             (''pressure_std'', Fin sd),
             (''pressure_min'', Fin lo),
             (''pressure_max'', Fin hi),
             (''pressure_range'', Fin (hi - lo)),
             (''pressure_cv'', Fin (if 0 < m then sd / m else 0))])"
proof -
  obtain r rs' where rs: "rs = r # rs'" using assms(2) by (cases rs) auto
  have m: "np_mean (map Fin rs) = Fin (sum_list rs / real (length rs))"
    using assms(2) by (rule np_mean_Fin)
  obtain sd where sd: "0 \<le> sd" "np_std (map Fin rs) = Fin sd"
    using np_std_Fin [OF assms(2)] by blast
  have lo: "np_min (map Fin rs) = Inr (Fin (foldl min r rs'))"
    unfolding rs by (rule np_min_Fin)
  have hi: "np_max (map Fin rs) = Inr (Fin (foldl max r rs'))"
    unfolding rs by (rule np_max_Fin)
  have "compute_pressure_features self strks = Inr (map_of
            [(''pressure_mean'', Fin (sum_list rs / real (length rs))),
             (''pressure_std'', Fin sd),
             (''pressure_min'', Fin (foldl min r rs')),
             (''pressure_max'', Fin (foldl max r rs')),
             (''pressure_range'', Fin (foldl max r rs' - foldl min r rs')),
             (''pressure_cv'',
                Fin (if 0 < sum_list rs / real (length rs)
                     then sd / (sum_list rs / real (length rs)) else 0))])"
    using assms(2) by (simp add: compute_pressure_features_def assms(1) m sd(2) lo hi Let_def)
  with m sd show ?thesis by blast
qed





section \<open>The spatial extractor\<close>

lemma all_points_finite:
  "\<exists>xs ys. length xs = length ys \<and> map fst (all_points strks) = map Fin xs \<and>
     map snd (all_points strks) = map Fin ys \<and> length xs = length (all_points strks)"
proof -
  let ?pts = "concat (map (\<lambda>s. get_or (points s) []) strks)"
  have "all_points strks =
      map (\<lambda>p. (Fin (get_or (point_x p) 0), Fin (get_or (point_y p) 0))) ?pts"
    by (simp add: all_points_def map_concat comp_def)
  then have "map fst (all_points strks) = map Fin (map (\<lambda>p. get_or (point_x p) 0) ?pts)"
    "map snd (all_points strks) = map Fin (map (\<lambda>p. get_or (point_y p) 0) ?pts)"
    "length (map (\<lambda>p. get_or (point_x p) 0) ?pts) = length (all_points strks)"
    by (simp_all add: comp_def)
  then show ?thesis
    by (intro exI [of _ "map (\<lambda>p. get_or (point_x p) 0) ?pts"]
              exI [of _ "map (\<lambda>p. get_or (point_y p) 0) ?pts"]) simp
qed

lemma fdiv_by_numeral: "fdiv (Fin a) (Fin (numeral n)) = Fin (a / numeral n)"
  by simp

lemma compute_spatial_features_value:
  assumes "strks \<noteq> []" "canvas_size \<noteq> Map.empty" "all_points strks \<noteq> []"
  shows "\<exists>min_x min_y max_x max_y center_x center_y.
     compute_spatial_features self strks canvas_size = Inr (map_of
       [(''bounding_box_width'', Fin (max_x - min_x)),
        (''bounding_box_height'', Fin (max_y - min_y)),
        (''bounding_box_area'', Fin ((max_x - min_x) * (max_y - min_y))),
        (''canvas_coverage'',
           fdiv (Fin ((max_x - min_x) * (max_y - min_y)))
                (Fin (get_or (canvas_size ''width'') 1 * get_or (canvas_size ''height'') 1)))]
       ++ map_of
       [(''center_offset_x'', Fin \<bar>center_x - get_or (canvas_size ''width'') 0 / 2\<bar>),
        (''center_offset_y'', Fin \<bar>center_y - get_or (canvas_size ''height'') 0 / 2\<bar>),
        (''center_offset_total'',
           Fin (sqrt ((center_x - get_or (canvas_size ''width'') 0 / 2) *
                      (center_x - get_or (canvas_size ''width'') 0 / 2) +
                      (center_y - get_or (canvas_size ''height'') 0 / 2) *
                      (center_y - get_or (canvas_size ''height'') 0 / 2))))])"
proof -
  obtain xs ys where pts: "length xs = length ys" "map fst (all_points strks) = map Fin xs"
      "map snd (all_points strks) = map Fin ys" "length xs = length (all_points strks)"
    using all_points_finite [of strks] by blast
  have "xs \<noteq> []" "ys \<noteq> []"
    using pts(1,4) assms(3) by auto
  then obtain x xs' y ys' where cons: "xs = x # xs'" "ys = y # ys'"
    by (cases xs; cases ys) auto
  have ext: "np_min (map Fin xs) = Inr (Fin (foldl min x xs'))"
      "np_min (map Fin ys) = Inr (Fin (foldl min y ys'))"
      "np_max (map Fin xs) = Inr (Fin (foldl max x xs'))"
      "np_max (map Fin ys) = Inr (Fin (foldl max y ys'))"
    unfolding cons by (rule np_min_Fin np_max_Fin)+
  have mean: "np_mean (map Fin xs) = Fin (sum_list xs / real (length xs))"
      "np_mean (map Fin ys) = Fin (sum_list ys / real (length ys))"
    using \<open>xs \<noteq> []\<close> \<open>ys \<noteq> []\<close> by (simp_all add: np_mean_Fin)
  have "compute_spatial_features self strks canvas_size = Inr (map_of
       [(''bounding_box_width'', Fin (foldl max x xs' - foldl min x xs')),
        (''bounding_box_height'', Fin (foldl max y ys' - foldl min y ys')),
        (''bounding_box_area'',
           Fin ((foldl max x xs' - foldl min x xs') * (foldl max y ys' - foldl min y ys'))),
        (''canvas_coverage'',
           fdiv (Fin ((foldl max x xs' - foldl min x xs') * (foldl max y ys' - foldl min y ys')))
                (Fin (get_or (canvas_size ''width'') 1 * get_or (canvas_size ''height'') 1)))]
       ++ map_of
       [(''center_offset_x'',
           Fin \<bar>sum_list xs / real (length xs) - get_or (canvas_size ''width'') 0 / 2\<bar>),
        (''center_offset_y'',
           Fin \<bar>sum_list ys / real (length ys) - get_or (canvas_size ''height'') 0 / 2\<bar>),
        (''center_offset_total'',
           Fin (sqrt ((sum_list xs / real (length xs) - get_or (canvas_size ''width'') 0 / 2) *
                      (sum_list xs / real (length xs) - get_or (canvas_size ''width'') 0 / 2) +
                      (sum_list ys / real (length ys) - get_or (canvas_size ''height'') 0 / 2) *
                      (sum_list ys / real (length ys) - get_or (canvas_size ''height'') 0 / 2))))])"
    using assms
    by (simp add: compute_spatial_features_def Let_def pts(2,3) ext mean canvas_get_def
          not_sum_squares_lt_zero fdiv_by_numeral del: fdiv.simps)
  then show ?thesis by blast
qed

lemma scenario_all_points:
  "all_points scenario_strokes = [(Fin 0, Fin 0), (Fin 3, Fin 4), (Fin 6, Fin 8)]"
  by (simp add: all_points_def scenario_strokes_def scenario_points_def get_or_def)

lemma scenario_spatial:
  assumes "canvas_size \<noteq> Map.empty"
  shows "compute_spatial_features self scenario_strokes canvas_size = Inr (map_of
       [(''bounding_box_width'', Fin 6),
        (''bounding_box_height'', Fin 8),
        (''bounding_box_area'', Fin 48),
        (''canvas_coverage'',
           fdiv (Fin 48)
                (Fin (get_or (canvas_size ''width'') 1 * get_or (canvas_size ''height'') 1)))]
       ++ map_of
       [(''center_offset_x'', Fin \<bar>3 - get_or (canvas_size ''width'') 0 / 2\<bar>),
        (''center_offset_y'', Fin \<bar>4 - get_or (canvas_size ''height'') 0 / 2\<bar>),
        (''center_offset_total'',
           Fin (sqrt ((3 - get_or (canvas_size ''width'') 0 / 2) *
                      (3 - get_or (canvas_size ''width'') 0 / 2) +
                      (4 - get_or (canvas_size ''height'') 0 / 2) *
                      (4 - get_or (canvas_size ''height'') 0 / 2))))])"
proof -
  have "scenario_strokes \<noteq> []" by (simp add: scenario_strokes_def)
  then show ?thesis
    using assms
    by (simp add: compute_spatial_features_def Let_def scenario_all_points np_min_def np_max_def
          np_mean_def py_sum_def canvas_get_def not_sum_squares_lt_zero fdiv_by_numeral
          del: fdiv.simps)
qed




section \<open>The scenario of one stroke\<close>

lemma upt_1_3: "[Suc 0..<3] = [Suc 0, 2]"
  by code_simp

lemma upt_1_2: "[Suc 0..<2] = [Suc 0]"
  by code_simp

lemma scenario_velocity_steps:
  "collect (velocity_step scenario_points) [1..<length scenario_points]
     = Inr [(Fin (1/20), Fin 5), (Fin (1/20), Fin 5)]"
proof -
  have len: "length scenario_points = 3" by (simp add: scenario_points_def)
  have "velocity_step scenario_points 1 = Inr (Fin (1/20), Fin 5)"
    using velocity_step_value [of 1 scenario_points]
    by (simp add: scenario_points_def get_or_def sqrt_25)
  moreover have "velocity_step scenario_points 2 = Inr (Fin (1/20), Fin 5)"
    using velocity_step_value [of 2 scenario_points]
    by (simp add: scenario_points_def get_or_def sqrt_25)
  ultimately show ?thesis
    by (simp add: len upt_1_3)
qed

lemma scenario_acceleration_steps:
  "acceleration_step scenario_points [Fin (1/20), Fin (1/20)] (Suc 0) = Inr (Fin 0)"
  by (simp add: acceleration_step_def get_item_def time_delta_def scenario_points_def
        get_or_def)

lemma scenario_kinematic_stroke:
  "kinematic_loop scenario_strokes no_samples =
     Inr \<lparr>velocities = [Fin (1/20), Fin (1/20)], accelerations = [Fin 0], jerks = [],
          path_lengths = [Fin 5, Fin 5]\<rparr>"
proof -
  have "get_or (points (hd scenario_strokes)) [] = scenario_points"
    by (simp add: scenario_strokes_def get_or_def)
  moreover have "length scenario_points = 3" by (simp add: scenario_points_def)
  ultimately have "kinematic_stroke (hd scenario_strokes) no_samples =
     Inr \<lparr>velocities = [Fin (1/20), Fin (1/20)], accelerations = [Fin 0], jerks = [],
          path_lengths = [Fin 5, Fin 5]\<rparr>"
    using scenario_velocity_steps scenario_acceleration_steps
    by (simp add: kinematic_stroke_def Let_def no_samples_def)
  then show ?thesis
    by (simp add: scenario_strokes_def)
qed

lemma scenario_kinematic:
  "compute_kinematic_features self scenario_strokes = Inr (map_of
     [(''velocity_mean'', Fin (1/20)), (''velocity_std'', Fin 0), (''velocity_max'', Fin (1/20)),
      (''acceleration_mean'', Fin 0), (''acceleration_std'', Fin 0),
      (''jerk_mean'', Fin 0), (''jerk_std'', Fin 0),
      (''path_length_total'', Fin 10), (''path_length_mean'', Fin 5)])"
proof -
  have "scenario_strokes \<noteq> []" by (simp add: scenario_strokes_def)
  then show ?thesis
    using scenario_kinematic_stroke
    by (simp add: compute_kinematic_features_def no_samples_def mean_or_zero_def std_or_zero_def
          max_or_zero_def np_mean_def np_std_def np_max_def py_sum_def Let_def)
qed

lemma scenario_pressure:
  "compute_pressure_features self scenario_strokes = Inr (map_of
     [(''pressure_mean'', Fin (1/2)), (''pressure_std'', Fin 0), (''pressure_min'', Fin (1/2)),
      (''pressure_max'', Fin (1/2)), (''pressure_range'', Fin 0), (''pressure_cv'', Fin 0)])"
proof -
  have "stroke_pressures scenario_strokes = [Fin (1/2), Fin (1/2), Fin (1/2)]"
    by (simp add: stroke_pressures_def scenario_strokes_def scenario_points_def get_or_def)
  then show ?thesis
    by (simp add: compute_pressure_features_def np_mean_def np_std_def np_max_def np_min_def
          py_sum_def Let_def)
qed

text \<open>
  Claim C3 expects the bounding-box area 12 for the stroke through (0,0), (3,4) and (6,8).
  The bounding box of the three points goes from 0 to 6 and from 0 to 8: the source
  computes the width 6, the height 8 and the area 48.
\<close>

theorem scenario_bounding_box_counterexample:
  "feature_of (compute_spatial_features new_feature_engineer scenario_strokes scenario_canvas)
     ''bounding_box_width'' = Some (Fin 6) \<and>
   feature_of (compute_spatial_features new_feature_engineer scenario_strokes scenario_canvas)
     ''bounding_box_height'' = Some (Fin 8) \<and>
   feature_of (compute_spatial_features new_feature_engineer scenario_strokes scenario_canvas)
     ''bounding_box_area'' = Some (Fin 48) \<and>
   feature_of (compute_spatial_features new_feature_engineer scenario_strokes scenario_canvas)
     ''bounding_box_area'' \<noteq> Some (Fin 12)"
proof -
  have "scenario_canvas \<noteq> Map.empty" by (simp add: scenario_canvas_def)
  then show ?thesis
    by (simp add: scenario_spatial feature_of_def)
qed

text \<open>
  Claim C3 as amended. For one stroke with the points (0,0) at time 0, (3,4) at time 100
  and (6,8) at time 200, the pressure 0.5 everywhere and a canvas of 500 by 500, the
  extractors return \<open>velocity_mean\<close> 0.05, \<open>velocity_std\<close> 0, \<open>path_length_total\<close> 10,
  \<open>bounding_box_area\<close> 6 * 8 = 48, \<open>pressure_cv\<close> 0, and for \<open>center_offset_total\<close> the
  distance from the mean point (3,4) to the centre (250,250) of the canvas.
\<close>

theorem scenario_features:
  "feature_of (compute_kinematic_features new_feature_engineer scenario_strokes)
     ''velocity_mean'' = Some (Fin (5 / 100)) \<and>
   feature_of (compute_kinematic_features new_feature_engineer scenario_strokes)
     ''velocity_std'' = Some (Fin 0) \<and>
   feature_of (compute_kinematic_features new_feature_engineer scenario_strokes)
     ''path_length_total'' = Some (Fin 10) \<and>
   feature_of (compute_spatial_features new_feature_engineer scenario_strokes scenario_canvas)
     ''bounding_box_area'' = Some (Fin (6 * 8)) \<and>
   feature_of (compute_pressure_features new_feature_engineer scenario_strokes)
     ''pressure_cv'' = Some (Fin 0) \<and>
   feature_of (compute_spatial_features new_feature_engineer scenario_strokes scenario_canvas)
     ''center_offset_total'' = Some (Fin (sqrt ((3 - 250) * (3 - 250) + (4 - 250) * (4 - 250))))"
proof -
  have "scenario_canvas \<noteq> Map.empty" by (simp add: scenario_canvas_def)
  then show ?thesis
    by (simp add: scenario_kinematic scenario_pressure scenario_spatial feature_of_def)
       (simp add: scenario_canvas_def get_or_def)
qed

section \<open>The records of the data loader\<close>

lemma compute_stroke_features_total:
  "\<exists>f. compute_stroke_features self strks = Inr f \<and>
     (strks = [] \<longrightarrow> f = Map.empty) \<and>
     (strks \<noteq> [] \<longrightarrow> {''stroke_count'', ''total_points''} \<subseteq> dom f) \<and>
     f ''session_id'' = None \<and> f ''test_type'' = None \<and> f ''created_at'' = None \<and>
     dom f \<subseteq> {''stroke_count'', ''total_points'', ''stroke_duration_mean'',
       ''stroke_duration_std'', ''total_drawing_time'', ''pressure_mean'', ''pressure_std'',
       ''pressure_min'', ''pressure_max''}"
proof (cases "strks = []")
  case True
  then show ?thesis by (simp add: compute_stroke_features_def)
next
  case False
  obtain rs where rs: "stroke_pressures strks = map Fin rs"
    using finite_floats_map [OF stroke_pressures_finite] by blast
  show ?thesis
  proof (cases rs)
    case Nil
    with rs False show ?thesis
      by (simp add: compute_stroke_features_def Let_def)
  next
    case (Cons r rs')
    have "np_min (map Fin rs) = Inr (Fin (foldl min r rs'))"
      "np_max (map Fin rs) = Inr (Fin (foldl max r rs'))"
      unfolding Cons by (rule np_min_Fin np_max_Fin)+
    with rs False Cons show ?thesis
      by (simp add: compute_stroke_features_def Let_def)
  qed
qed

lemma compute_stroke_features_self:
  "compute_stroke_features a strks = compute_stroke_features b strks"
  by (simp add: compute_stroke_features_def)

lemma extract_features_self: "extract_features a s = extract_features b s"
  by (simp add: extract_features_def compute_stroke_features_self [of a _ b]
        cong: option.case_cong)

lemma extract_features_total:
  "\<exists>f. extract_features self s = Inr f \<and>
     f ''session_id'' = Some (PStr (get_or (sid s) ''unknown'')) \<and>
     f ''test_type'' = Some (PStr (get_or (testType s) ''unknown'')) \<and>
     f ''created_at'' = Some (PInt (get_or (createdAt s) 0)) \<and>
     (strokes (get_or (data s) \<lparr>strokes = None, canvasSize = None\<rparr>) = None \<longrightarrow>
        dom f = {''session_id'', ''test_type'', ''created_at''}) \<and>
     (strokes (get_or (data s) \<lparr>strokes = None, canvasSize = None\<rparr>) = Some [] \<longrightarrow>
        f = [''session_id'' \<mapsto> PStr (get_or (sid s) ''unknown''),
             ''test_type'' \<mapsto> PStr (get_or (testType s) ''unknown''),
             ''created_at'' \<mapsto> PInt (get_or (createdAt s) 0)]) \<and>
     ((''stroke_count'' \<in> dom f) =
        (\<exists>strks. strokes (get_or (data s) \<lparr>strokes = None, canvasSize = None\<rparr>) = Some strks
           \<and> strks \<noteq> [])) \<and>
     ((''total_points'' \<in> dom f) =
        (\<exists>strks. strokes (get_or (data s) \<lparr>strokes = None, canvasSize = None\<rparr>) = Some strks
           \<and> strks \<noteq> []))"
proof (cases "strokes (get_or (data s) \<lparr>strokes = None, canvasSize = None\<rparr>)")
  case None
  then show ?thesis
    by (auto simp: extract_features_def Let_def)
next
  case (Some strks)
  obtain g where g: "compute_stroke_features self strks = Inr g"
      "strks = [] \<longrightarrow> g = Map.empty"
      "strks \<noteq> [] \<longrightarrow> {''stroke_count'', ''total_points''} \<subseteq> dom g"
      "g ''session_id'' = None" "g ''test_type'' = None" "g ''created_at'' = None"
    using compute_stroke_features_total [of self strks] by (elim exE conjE) (rule that)
  let ?feats = "[''session_id'' \<mapsto> PStr (get_or (sid s) ''unknown''),
                 ''test_type'' \<mapsto> PStr (get_or (testType s) ''unknown''),
                 ''created_at'' \<mapsto> PInt (get_or (createdAt s) 0)]"
  have run: "extract_features self s = Inr (?feats ++ g)"
    using Some g(1) by (simp add: extract_features_def Let_def)
  have meta: "(?feats ++ g) ''session_id'' = Some (PStr (get_or (sid s) ''unknown''))"
      "(?feats ++ g) ''test_type'' = Some (PStr (get_or (testType s) ''unknown''))"
      "(?feats ++ g) ''created_at'' = Some (PInt (get_or (createdAt s) 0))"
    using g(4-6) by (simp_all add: map_add_def)
  have empty: "strks = [] \<longrightarrow> ?feats ++ g = ?feats"
    using g(2) by simp
  have count: "(''stroke_count'' \<in> dom (?feats ++ g)) = (strks \<noteq> [])"
      "(''total_points'' \<in> dom (?feats ++ g)) = (strks \<noteq> [])"
    using g(2,3) by (cases "strks = []"; simp; blast)+
  show ?thesis
    using run meta empty count Some by (intro exI [of _ "?feats ++ g"]) simp
qed



text \<open>
  Claim C2 expects, for a session whose list of strokes is empty, a record that unites
  the four all-zero default mappings with \<open>stroke_count = 0\<close> and \<open>total_points = 0\<close>.
  \<^verbatim>\<open>_compute_stroke_features\<close> returns the empty mapping for an empty list, so the
  record holds the three metadata keys and nothing else: no \<open>stroke_count\<close>, no
  \<open>total_points\<close>, no key of an extractor.
\<close>

theorem empty_strokes_record_counterexample:
  "keys_of (extract_features empty_loader no_strokes_session)
     = Some {''session_id'', ''test_type'', ''created_at''} \<and>
   feature_of (extract_features empty_loader no_strokes_session) ''stroke_count'' = None \<and>
   feature_of (extract_features empty_loader no_strokes_session) ''total_points'' = None \<and>
   feature_of (extract_features empty_loader no_strokes_session) ''velocity_mean'' = None"
  by (auto simp: extract_features_def compute_stroke_features_def no_strokes_session_def
        get_or_def keys_of_def feature_of_def)

text \<open>
  Claim C2 as amended. For every session whose list of strokes is empty, the record of
  \<^verbatim>\<open>extract_features\<close> is exactly the three metadata keys, and each of the four
  extractors, called on the empty list, returns exactly its all-zero default mapping.
\<close>

theorem empty_strokes_defaults:
  assumes "strokes (get_or (data s) \<lparr>strokes = None, canvasSize = None\<rparr>) = Some []"
  shows "extract_features self s =
       Inr [''session_id'' \<mapsto> PStr (get_or (sid s) ''unknown''),
            ''test_type'' \<mapsto> PStr (get_or (testType s) ''unknown''),
            ''created_at'' \<mapsto> PInt (get_or (createdAt s) 0)] \<and>
     compute_kinematic_features engineer [] = Inr empty_kinematic_features \<and>
     compute_spatial_features engineer [] canvas_size = Inr empty_spatial_features \<and>
     compute_temporal_features engineer [] = Inr empty_temporal_features \<and>
     compute_pressure_features engineer [] = Inr empty_pressure_features"
proof -
  have "extract_features self s =
       Inr [''session_id'' \<mapsto> PStr (get_or (sid s) ''unknown''),
            ''test_type'' \<mapsto> PStr (get_or (testType s) ''unknown''),
            ''created_at'' \<mapsto> PInt (get_or (createdAt s) 0)]"
    using assms by (simp add: extract_features_def compute_stroke_features_def Let_def)
  moreover have "compute_kinematic_features engineer [] = Inr empty_kinematic_features"
    by (simp add: compute_kinematic_features_def)
  moreover have "compute_spatial_features engineer [] canvas_size = Inr empty_spatial_features"
    by (simp add: compute_spatial_features_def)
  moreover have "compute_temporal_features engineer [] = Inr empty_temporal_features"
    by (simp add: compute_temporal_features_def)
  moreover have "compute_pressure_features engineer [] = Inr empty_pressure_features"
    by (simp add: compute_pressure_features_def stroke_pressures_def)
  ultimately show ?thesis by (intro conjI)
qed

theorem empty_strokes_defaults_witness:
  "strokes (get_or (data no_strokes_session) \<lparr>strokes = None, canvasSize = None\<rparr>) = Some [] \<and>
   extract_features empty_loader no_strokes_session =
     Inr [''session_id'' \<mapsto> PStr ''s0'', ''test_type'' \<mapsto> PStr ''clockDrawing'',
          ''created_at'' \<mapsto> PInt 1700000000000] \<and>
   compute_kinematic_features new_feature_engineer [] = Inr empty_kinematic_features \<and>
   compute_spatial_features new_feature_engineer [] scenario_canvas = Inr empty_spatial_features \<and>
   compute_temporal_features new_feature_engineer [] = Inr empty_temporal_features \<and>
   compute_pressure_features new_feature_engineer [] = Inr empty_pressure_features"
proof -
  have h: "strokes (get_or (data no_strokes_session) \<lparr>strokes = None, canvasSize = None\<rparr>)
      = Some []"
    by (simp add: no_strokes_session_def get_or_def)
  show ?thesis
    using h empty_strokes_defaults [OF h, of empty_loader new_feature_engineer scenario_canvas]
    by (simp add: no_strokes_session_def get_or_def)
qed

section \<open>The key sets\<close>

lemma kinematic_keys:
  "keys_of (compute_kinematic_features engineer strks) =
     Some {''velocity_mean'', ''velocity_std'', ''velocity_max'', ''acceleration_mean'',
           ''acceleration_std'', ''jerk_mean'', ''jerk_std'', ''path_length_total'',
           ''path_length_mean''}"
proof -
  obtain f where "compute_kinematic_features engineer strks = Inr f"
    "dom f = {''velocity_mean'', ''velocity_std'', ''velocity_max'', ''acceleration_mean'',
              ''acceleration_std'', ''jerk_mean'', ''jerk_std'', ''path_length_total'',
              ''path_length_mean''}"
    using compute_kinematic_features_total [of engineer strks] by (elim exE conjE) (rule that)
  then show ?thesis by (simp add: keys_of_def)
qed

lemma keys_of_two_updates:
  "keys_of (Inr (map_of [(k1, a), (k2, b), (k3, c), (k4, d)] ++ map_of [(k5, e), (k6, f), (k7, g)]))
     = Some {k1, k2, k3, k4, k5, k6, k7}"
  by (auto simp: keys_of_def dom_map_of_conv_image_fst)

lemma spatial_keys:
  "keys_of (compute_spatial_features engineer strks canvas_size) =
     Some {''bounding_box_width'', ''bounding_box_height'', ''bounding_box_area'',
           ''canvas_coverage'', ''center_offset_x'', ''center_offset_y'',
           ''center_offset_total''}"
proof (cases "strks \<noteq> [] \<and> canvas_size \<noteq> Map.empty \<and> all_points strks \<noteq> []")
  case True
  then obtain min_x min_y max_x max_y center_x center_y where
    "compute_spatial_features engineer strks canvas_size = Inr (map_of
       [(''bounding_box_width'', Fin (max_x - min_x)),
        (''bounding_box_height'', Fin (max_y - min_y)),
        (''bounding_box_area'', Fin ((max_x - min_x) * (max_y - min_y))),
        (''canvas_coverage'',
           fdiv (Fin ((max_x - min_x) * (max_y - min_y)))
                (Fin (get_or (canvas_size ''width'') 1 * get_or (canvas_size ''height'') 1)))]
       ++ map_of
       [(''center_offset_x'', Fin \<bar>center_x - get_or (canvas_size ''width'') 0 / 2\<bar>),
        (''center_offset_y'', Fin \<bar>center_y - get_or (canvas_size ''height'') 0 / 2\<bar>),
        (''center_offset_total'',
           Fin (sqrt ((center_x - get_or (canvas_size ''width'') 0 / 2) *
                      (center_x - get_or (canvas_size ''width'') 0 / 2) +
                      (center_y - get_or (canvas_size ''height'') 0 / 2) *
                      (center_y - get_or (canvas_size ''height'') 0 / 2))))])"
    using compute_spatial_features_value [of strks canvas_size engineer] by blast
  then show ?thesis
    by (simp only: keys_of_two_updates)
next
  case False
  then have "compute_spatial_features engineer strks canvas_size = Inr empty_spatial_features"
    by (auto simp: compute_spatial_features_def Let_def)
  then show ?thesis
    by (simp add: keys_of_def empty_spatial_features_def dom_map_of_conv_image_fst)
qed

lemma temporal_keys:
  "keys_of (compute_temporal_features engineer strks) =
     Some {''stroke_duration_mean'', ''stroke_duration_std'', ''stroke_duration_max'',
           ''inter_stroke_pause_mean'', ''inter_stroke_pause_std'', ''inter_stroke_pause_max'',
           ''total_pause_time''}"
proof (cases "strks = []")
  case True
  then show ?thesis
    by (simp add: keys_of_def compute_temporal_features_def empty_temporal_features_def
          dom_map_of_conv_image_fst)
next
  case False
  obtain pauses where pauses: "stroke_pauses strks = Inr pauses"
      "\<forall>v\<in>set pauses. \<exists>p\<ge>0. v = Fin p"
    using stroke_pauses_nonneg [of strks] by (elim exE conjE) (rule that)
  have "set pauses \<subseteq> range Fin" using pauses(2) by auto
  then obtain dmax pmax where "compute_temporal_features engineer strks = Inr (map_of
            [(''stroke_duration_mean'', mean_or_zero (stroke_durations strks)),
             (''stroke_duration_std'', std_or_zero (stroke_durations strks)),
             (''stroke_duration_max'', Fin dmax),
             (''inter_stroke_pause_mean'', mean_or_zero pauses),
             (''inter_stroke_pause_std'', std_or_zero pauses),
             (''inter_stroke_pause_max'', Fin pmax),
             (''total_pause_time'', py_sum pauses)])"
    using compute_temporal_features_value [OF False pauses(1), of engineer] by blast
  then show ?thesis
    by (simp add: keys_of_def dom_map_of_conv_image_fst)
qed

lemma pressure_keys:
  "keys_of (compute_pressure_features engineer strks) =
     Some {''pressure_mean'', ''pressure_std'', ''pressure_min'', ''pressure_max'',
           ''pressure_range'', ''pressure_cv''}"
proof -
  obtain rs where rs: "stroke_pressures strks = map Fin rs"
    using finite_floats_map [OF stroke_pressures_finite] by blast
  show ?thesis
  proof (cases "rs = []")
    case True
    then have "compute_pressure_features engineer strks = Inr empty_pressure_features"
      using rs by (simp add: compute_pressure_features_def)
    then show ?thesis
      by (simp add: keys_of_def empty_pressure_features_def dom_map_of_conv_image_fst)
  next
    case False
    obtain m sd lo hi where "compute_pressure_features engineer strks = Inr (map_of
            [(''pressure_mean'', Fin m),
             (''pressure_std'', Fin sd),
             (''pressure_min'', Fin lo),
             (''pressure_max'', Fin hi),
             (''pressure_range'', Fin (hi - lo)),
             (''pressure_cv'', Fin (if 0 < m then sd / m else 0))])"
      using compute_pressure_features_value [OF rs False, of engineer] by blast
    then show ?thesis
      by (simp add: keys_of_def dom_map_of_conv_image_fst)
  qed
qed

lemma kinematic_loop_short:
  "\<forall>s\<in>set strks. length (get_or (points s) []) < 2 \<Longrightarrow> kinematic_loop strks acc = Inr acc"
  by (induction strks) (simp_all add: kinematic_stroke_def)

lemma degenerate_defaults:
  "(\<forall>s\<in>set strks. length (get_or (points s) []) < 2) \<longrightarrow>
     compute_kinematic_features engineer strks = Inr empty_kinematic_features"
  "(strks = [] \<or> canvas_size = Map.empty \<or> all_points strks = []) \<longrightarrow>
     compute_spatial_features engineer strks canvas_size = Inr empty_spatial_features"
  "(\<forall>s\<in>set strks. startTime s = None \<and> endTime s = None) \<longrightarrow>
     compute_temporal_features engineer strks = Inr empty_temporal_features"
  "stroke_pressures strks = [] \<longrightarrow>
     compute_pressure_features engineer strks = Inr empty_pressure_features"
proof -
  show "(\<forall>s\<in>set strks. length (get_or (points s) []) < 2) \<longrightarrow>
     compute_kinematic_features engineer strks = Inr empty_kinematic_features"
    by (simp add: compute_kinematic_features_def kinematic_loop_short max_or_zero_def
          mean_or_zero_def std_or_zero_def py_sum_def empty_kinematic_features_def)
  show "(strks = [] \<or> canvas_size = Map.empty \<or> all_points strks = []) \<longrightarrow>
     compute_spatial_features engineer strks canvas_size = Inr empty_spatial_features"
    by (auto simp: compute_spatial_features_def Let_def)
  show "(\<forall>s\<in>set strks. startTime s = None \<and> endTime s = None) \<longrightarrow>
     compute_temporal_features engineer strks = Inr empty_temporal_features"
  proof
    assume untimed: "\<forall>s\<in>set strks. startTime s = None \<and> endTime s = None"
    then have durations: "stroke_durations strks = []"
      by (simp add: stroke_durations_def)
    have "collect (pause_step strks) [1..<length strks] = Inr (map (\<lambda>i. []) [1..<length strks])"
    proof (rule collect_map)
      fix i assume "i \<in> set [1..<length strks]"
      then have i: "0 < i" "i < length strks" by auto
      then have "endTime (strks ! (i - 1)) = None"
        using untimed by simp
      then show "pause_step strks i = Inr []"
        using pause_step_value [OF i] by simp
    qed
    then have "stroke_pauses strks = Inr []"
      by (simp add: stroke_pauses_def)
    then show "compute_temporal_features engineer strks = Inr empty_temporal_features"
      using durations
      by (simp add: compute_temporal_features_def max_or_zero_def mean_or_zero_def
            std_or_zero_def py_sum_def empty_temporal_features_def)
  qed
  show "stroke_pressures strks = [] \<longrightarrow>
     compute_pressure_features engineer strks = Inr empty_pressure_features"
    by (simp add: compute_pressure_features_def)
qed

lemma extract_features_keys:
  "\<exists>f. extract_features self s = Inr f \<and>
     dom f \<subseteq> {''session_id'', ''test_type'', ''created_at'', ''stroke_count'',
       ''total_points'', ''stroke_duration_mean'', ''stroke_duration_std'',
       ''total_drawing_time'', ''pressure_mean'', ''pressure_std'', ''pressure_min'',
       ''pressure_max''}"
proof (cases "strokes (get_or (data s) \<lparr>strokes = None, canvasSize = None\<rparr>)")
  case None
  then show ?thesis by (auto simp: extract_features_def Let_def)
next
  case (Some strks)
  obtain g where g: "compute_stroke_features self strks = Inr g"
      "dom g \<subseteq> {''stroke_count'', ''total_points'', ''stroke_duration_mean'',
       ''stroke_duration_std'', ''total_drawing_time'', ''pressure_mean'', ''pressure_std'',
       ''pressure_min'', ''pressure_max''}"
    using compute_stroke_features_total [of self strks] by (elim exE conjE) (rule that)
  let ?feats = "[''session_id'' \<mapsto> PStr (get_or (sid s) ''unknown''),
                 ''test_type'' \<mapsto> PStr (get_or (testType s) ''unknown''),
                 ''created_at'' \<mapsto> PInt (get_or (createdAt s) 0)]"
  have run: "extract_features self s = Inr (?feats ++ g)"
    using Some g(1) by (simp add: extract_features_def Let_def)
  have d1: "dom (?feats ++ g) = dom g \<union> {''created_at'', ''test_type'', ''session_id''}"
    by (simp only: dom_map_add dom_fun_upd dom_empty option.simps if_False)
  have d2: "dom g \<union> {''created_at'', ''test_type'', ''session_id''}
      \<subseteq> {''stroke_count'', ''total_points'', ''stroke_duration_mean'',
       ''stroke_duration_std'', ''total_drawing_time'', ''pressure_mean'', ''pressure_std'',
       ''pressure_min'', ''pressure_max''} \<union> {''created_at'', ''test_type'', ''session_id''}"
    using g(2) by (rule Un_mono) (rule subset_refl)
  have d3: "{''stroke_count'', ''total_points'', ''stroke_duration_mean'',
       ''stroke_duration_std'', ''total_drawing_time'', ''pressure_mean'', ''pressure_std'',
       ''pressure_min'', ''pressure_max''} \<union> {''created_at'', ''test_type'', ''session_id''}
      \<subseteq> {''session_id'', ''test_type'', ''created_at'', ''stroke_count'',
       ''total_points'', ''stroke_duration_mean'', ''stroke_duration_std'',
       ''total_drawing_time'', ''pressure_mean'', ''pressure_std'', ''pressure_min'',
       ''pressure_max''}"
    by simp
  have "dom (?feats ++ g) \<subseteq> {''session_id'', ''test_type'', ''created_at'', ''stroke_count'',
       ''total_points'', ''stroke_duration_mean'', ''stroke_duration_std'',
       ''total_drawing_time'', ''pressure_mean'', ''pressure_std'', ''pressure_min'',
       ''pressure_max''}"
    unfolding d1 using d2 d3 by (rule subset_trans)
  with run show ?thesis by (intro exI [of _ "?feats ++ g"] conjI)
qed

text \<open>
  Claim C1 says that the record of every session holds every recognized feature key.
  \<^verbatim>\<open>extract_features\<close> does not call the four extractors, and it adds the stroke
  features only for a list of strokes that is not empty: the record of a session without
  any entry has the three metadata keys only, and the record of the session of the scenario
  has no \<open>velocity_mean\<close> and no \<open>bounding_box_area\<close>.
\<close>

theorem record_keys_counterexample:
  "keys_of (extract_features empty_loader bare_session)
     = Some {''session_id'', ''test_type'', ''created_at''} \<and>
   feature_of (extract_features empty_loader bare_session) ''stroke_count'' = None \<and>
   feature_of (extract_features empty_loader scenario_session) ''velocity_mean'' = None \<and>
   feature_of (extract_features empty_loader scenario_session) ''bounding_box_area'' = None"
proof -
  have bare: "extract_features empty_loader bare_session =
      Inr [''session_id'' \<mapsto> PStr ''unknown'', ''test_type'' \<mapsto> PStr ''unknown'',
           ''created_at'' \<mapsto> PInt 0]"
    by (simp add: extract_features_def bare_session_def get_or_def)
  have k1: "keys_of (extract_features empty_loader bare_session)
     = Some {''session_id'', ''test_type'', ''created_at''}"
    unfolding bare by (auto simp: keys_of_def)
  have k2: "feature_of (extract_features empty_loader bare_session) ''stroke_count'' = None"
    unfolding bare by (simp add: feature_of_def)
  define T where "T = {''session_id'', ''test_type'', ''created_at'', ''stroke_count'',
       ''total_points'', ''stroke_duration_mean'', ''stroke_duration_std'',
       ''total_drawing_time'', ''pressure_mean'', ''pressure_std'', ''pressure_min'',
       ''pressure_max''}"
  obtain f where f: "extract_features empty_loader scenario_session = Inr f" "dom f \<subseteq> T"
    using extract_features_keys [of empty_loader scenario_session] unfolding T_def by blast
  have "''velocity_mean'' \<notin> T" "''bounding_box_area'' \<notin> T"
    by (simp_all add: T_def)
  then have "f ''velocity_mean'' = None" "f ''bounding_box_area'' = None"
    using f(2) by blast+
  then have k3: "feature_of (extract_features empty_loader scenario_session) ''velocity_mean''
      = None"
    "feature_of (extract_features empty_loader scenario_session) ''bounding_box_area'' = None"
    by (simp_all add: feature_of_def f(1))
  show ?thesis
    using k1 k2 k3 by (intro conjI)
qed

text \<open>
  Claim C1 as amended. The record of \<^verbatim>\<open>extract_features\<close> always holds the metadata
  keys \<open>session_id\<close>, \<open>test_type\<close> and \<open>created_at\<close>, it holds \<open>stroke_count\<close> and
  \<open>total_points\<close> exactly when the session has a list of strokes that is not empty, and
  it holds no key beyond the twelve that the loader knows. Each of the four extractors
  returns exactly its own fixed set of keys for every input, and its all-zero default
  mapping when the input is too small: strokes of fewer than two points for the kinematic
  extractor, no strokes, no canvas or no points for the spatial one, strokes without times
  for the temporal one, no point with a pressure for the pressure extractor.
\<close>

theorem feature_key_sets:
  "(\<exists>f. extract_features self s = Inr f \<and>
      f ''session_id'' = Some (PStr (get_or (sid s) ''unknown'')) \<and>
      f ''test_type'' = Some (PStr (get_or (testType s) ''unknown'')) \<and>
      f ''created_at'' = Some (PInt (get_or (createdAt s) 0)) \<and>
      ((''stroke_count'' \<in> dom f) =
         (\<exists>strks. strokes (get_or (data s) \<lparr>strokes = None, canvasSize = None\<rparr>) = Some strks
            \<and> strks \<noteq> [])) \<and>
      ((''total_points'' \<in> dom f) =
         (\<exists>strks. strokes (get_or (data s) \<lparr>strokes = None, canvasSize = None\<rparr>) = Some strks
            \<and> strks \<noteq> [])) \<and>
      dom f \<subseteq> {''session_id'', ''test_type'', ''created_at'', ''stroke_count'',
        ''total_points'', ''stroke_duration_mean'', ''stroke_duration_std'',
        ''total_drawing_time'', ''pressure_mean'', ''pressure_std'', ''pressure_min'',
        ''pressure_max''}) \<and>
   keys_of (compute_kinematic_features engineer strks) =
     Some {''velocity_mean'', ''velocity_std'', ''velocity_max'', ''acceleration_mean'',
           ''acceleration_std'', ''jerk_mean'', ''jerk_std'', ''path_length_total'',
           ''path_length_mean''} \<and>
   keys_of (compute_spatial_features engineer strks canvas_size) =
     Some {''bounding_box_width'', ''bounding_box_height'', ''bounding_box_area'',
           ''canvas_coverage'', ''center_offset_x'', ''center_offset_y'',
           ''center_offset_total''} \<and>
   keys_of (compute_temporal_features engineer strks) =
     Some {''stroke_duration_mean'', ''stroke_duration_std'', ''stroke_duration_max'',
           ''inter_stroke_pause_mean'', ''inter_stroke_pause_std'', ''inter_stroke_pause_max'',
           ''total_pause_time''} \<and>
   keys_of (compute_pressure_features engineer strks) =
     Some {''pressure_mean'', ''pressure_std'', ''pressure_min'', ''pressure_max'',
           ''pressure_range'', ''pressure_cv''} \<and>
   ((\<forall>s\<in>set strks. length (get_or (points s) []) < 2) \<longrightarrow>
      compute_kinematic_features engineer strks = Inr empty_kinematic_features) \<and>
   ((strks = [] \<or> canvas_size = Map.empty \<or> all_points strks = []) \<longrightarrow>
      compute_spatial_features engineer strks canvas_size = Inr empty_spatial_features) \<and>
   ((\<forall>s\<in>set strks. startTime s = None \<and> endTime s = None) \<longrightarrow>
      compute_temporal_features engineer strks = Inr empty_temporal_features) \<and>
   (stroke_pressures strks = [] \<longrightarrow>
      compute_pressure_features engineer strks = Inr empty_pressure_features)"
proof (intro conjI)
  obtain f where f: "extract_features self s = Inr f"
    "f ''session_id'' = Some (PStr (get_or (sid s) ''unknown''))"
    "f ''test_type'' = Some (PStr (get_or (testType s) ''unknown''))"
    "f ''created_at'' = Some (PInt (get_or (createdAt s) 0))"
    "(''stroke_count'' \<in> dom f) =
         (\<exists>strks. strokes (get_or (data s) \<lparr>strokes = None, canvasSize = None\<rparr>) = Some strks
            \<and> strks \<noteq> [])"
    "(''total_points'' \<in> dom f) =
         (\<exists>strks. strokes (get_or (data s) \<lparr>strokes = None, canvasSize = None\<rparr>) = Some strks
            \<and> strks \<noteq> [])"
    using extract_features_total [of self s] by (elim exE conjE) (rule that)
  obtain f' where f': "extract_features self s = Inr f'"
    "dom f' \<subseteq> {''session_id'', ''test_type'', ''created_at'', ''stroke_count'',
        ''total_points'', ''stroke_duration_mean'', ''stroke_duration_std'',
        ''total_drawing_time'', ''pressure_mean'', ''pressure_std'', ''pressure_min'',
        ''pressure_max''}"
    using extract_features_keys [of self s] by (elim exE conjE) (rule that)
  have "f' = f" using f(1) f'(1) by simp
  with f f'(2) show "\<exists>f. extract_features self s = Inr f \<and>
      f ''session_id'' = Some (PStr (get_or (sid s) ''unknown'')) \<and>
      f ''test_type'' = Some (PStr (get_or (testType s) ''unknown'')) \<and>
      f ''created_at'' = Some (PInt (get_or (createdAt s) 0)) \<and>
      ((''stroke_count'' \<in> dom f) =
         (\<exists>strks. strokes (get_or (data s) \<lparr>strokes = None, canvasSize = None\<rparr>) = Some strks
            \<and> strks \<noteq> [])) \<and>
      ((''total_points'' \<in> dom f) =
         (\<exists>strks. strokes (get_or (data s) \<lparr>strokes = None, canvasSize = None\<rparr>) = Some strks
            \<and> strks \<noteq> [])) \<and>
      dom f \<subseteq> {''session_id'', ''test_type'', ''created_at'', ''stroke_count'',
        ''total_points'', ''stroke_duration_mean'', ''stroke_duration_std'',
        ''total_drawing_time'', ''pressure_mean'', ''pressure_std'', ''pressure_min'',
        ''pressure_max''}"
    by (intro exI [of _ f] conjI) (simp_all only:)
qed (rule kinematic_keys spatial_keys temporal_keys pressure_keys degenerate_defaults)+

text \<open>
  One stroke of a single point that carries neither times nor a pressure, with an empty
  canvas mapping: the four extractors return their all-zero defaults.
\<close>

theorem feature_key_sets_witness:
  "compute_kinematic_features new_feature_engineer single_point_strokes
     = Inr empty_kinematic_features \<and>
   compute_spatial_features new_feature_engineer single_point_strokes Map.empty
     = Inr empty_spatial_features \<and>
   compute_temporal_features new_feature_engineer single_point_strokes
     = Inr empty_temporal_features \<and>
   compute_pressure_features new_feature_engineer single_point_strokes
     = Inr empty_pressure_features \<and>
   keys_of (compute_kinematic_features new_feature_engineer single_point_strokes) =
     Some {''velocity_mean'', ''velocity_std'', ''velocity_max'', ''acceleration_mean'',
           ''acceleration_std'', ''jerk_mean'', ''jerk_std'', ''path_length_total'',
           ''path_length_mean''}"
proof -
  have h: "\<forall>s\<in>set single_point_strokes. length (get_or (points s) []) < 2"
      "single_point_strokes = [] \<or> (Map.empty :: canvas) = Map.empty
         \<or> all_points single_point_strokes = []"
      "\<forall>s\<in>set single_point_strokes. startTime s = None \<and> endTime s = None"
      "stroke_pressures single_point_strokes = []"
    by (simp_all add: single_point_strokes_def get_or_def stroke_pressures_def)
  show ?thesis
    using h feature_key_sets
      [of empty_loader bare_session new_feature_engineer single_point_strokes Map.empty]
    by (intro conjI) blast+
qed

section \<open>Batches of sessions\<close>

lemma collect_append:
  "collect body xs = Inr rx \<Longrightarrow> collect body ys = Inr ry \<Longrightarrow>
     collect body (xs @ ys) = Inr (rx @ ry)"
proof (induction xs arbitrary: rx)
  case Nil
  then show ?case by simp
next
  case (Cons x xs)
  from Cons.prems(1) obtain v ws where parts: "body x = Inr v" "collect body xs = Inr ws"
      "rx = v # ws"
    by (auto simp: bind_err_def split: sum.splits)
  from Cons.IH [OF parts(2) Cons.prems(2)] parts(1,3) show ?case by simp
qed

lemma collect_extract_features:
  "\<exists>rows. \<forall>other. collect (extract_features other) ss = Inr rows"
proof (induction ss)
  case Nil
  then show ?case by simp
next
  case (Cons s ss)
  then obtain rows where rows: "\<forall>other. collect (extract_features other) ss = Inr rows"
    by blast
  obtain f where f: "extract_features empty_loader s = Inr f"
    using extract_features_total [of empty_loader s] by blast
  have "\<forall>other. extract_features other s = Inr f"
    using f extract_features_self [of _ s empty_loader] by simp
  with rows have "\<forall>other. collect (extract_features other) (s # ss) = Inr (f # rows)"
    by simp
  then show ?case by (rule exI)
qed

lemma engineer_self:
  "compute_kinematic_features a strks = compute_kinematic_features b strks"
  "compute_spatial_features a strks canvas_size = compute_spatial_features b strks canvas_size"
  "compute_temporal_features a strks = compute_temporal_features b strks"
  "compute_pressure_features a strks = compute_pressure_features b strks"
  by (simp_all add: compute_kinematic_features_def compute_spatial_features_def
        compute_temporal_features_def compute_pressure_features_def)

lemma create_dataset_loaded:
  "ss \<noteq> [] \<Longrightarrow> create_dataset files (self\<lparr>sessions := ss\<rparr>)
     = (collect (extract_features (self\<lparr>sessions := ss\<rparr>)) ss, self\<lparr>sessions := ss\<rparr>)"
  by (simp add: create_dataset_def Let_def)

text \<open>
  Claim C8. The record of a session does not depend on the loader object that extracts it,
  so it is the same whether another session is processed before it, after it or not at
  all: \<^verbatim>\<open>create_dataset\<close> over the sessions \<open>A\<close> and \<open>B\<close>, in either order, gives the
  two records that the sessions give alone. The rows of a batch are the rows of its two
  parts, extracted independently, one after the other, and the call leaves the loader as it
  was. The four extractors do not read the engineer object either.
\<close>

theorem batch_equals_independent_extraction:
  "(\<exists>ra rb. (\<forall>other. extract_features other A = Inr ra) \<and>
      (\<forall>other. extract_features other B = Inr rb) \<and>
      fst (create_dataset files (self\<lparr>sessions := [A]\<rparr>)) = Inr [ra] \<and>
      fst (create_dataset files (self\<lparr>sessions := [A, B]\<rparr>)) = Inr [ra, rb] \<and>
      fst (create_dataset files (self\<lparr>sessions := [B, A]\<rparr>)) = Inr [rb, ra]) \<and>
   (\<exists>rx ry. (\<forall>other. collect (extract_features other) xs = Inr rx) \<and>
      (\<forall>other. collect (extract_features other) ys = Inr ry) \<and>
      (xs @ ys \<noteq> [] \<longrightarrow>
         create_dataset files (self\<lparr>sessions := xs @ ys\<rparr>)
           = (Inr (rx @ ry), self\<lparr>sessions := xs @ ys\<rparr>))) \<and>
   compute_kinematic_features engineer strks = compute_kinematic_features engineer' strks \<and>
   compute_spatial_features engineer strks canvas_size
     = compute_spatial_features engineer' strks canvas_size \<and>
   compute_temporal_features engineer strks = compute_temporal_features engineer' strks \<and>
   compute_pressure_features engineer strks = compute_pressure_features engineer' strks"
proof (intro conjI)
  obtain ra where ra: "\<forall>other. collect (extract_features other) [A] = Inr ra"
    using collect_extract_features [of "[A]"] by blast
  obtain rb where rb: "\<forall>other. collect (extract_features other) [B] = Inr rb"
    using collect_extract_features [of "[B]"] by blast
  obtain fa where fa: "extract_features empty_loader A = Inr fa"
    using extract_features_total [of empty_loader A] by blast
  obtain fb where fb: "extract_features empty_loader B = Inr fb"
    using extract_features_total [of empty_loader B] by blast
  have a: "\<forall>other. extract_features other A = Inr fa"
    using fa extract_features_self [of _ A empty_loader] by simp
  have b: "\<forall>other. extract_features other B = Inr fb"
    using fb extract_features_self [of _ B empty_loader] by simp
  have "fst (create_dataset files (self\<lparr>sessions := [A]\<rparr>)) = Inr [fa]"
    "fst (create_dataset files (self\<lparr>sessions := [A, B]\<rparr>)) = Inr [fa, fb]"
    "fst (create_dataset files (self\<lparr>sessions := [B, A]\<rparr>)) = Inr [fb, fa]"
    using a b by (simp_all add: create_dataset_loaded)
  with a b show "\<exists>ra rb. (\<forall>other. extract_features other A = Inr ra) \<and>
      (\<forall>other. extract_features other B = Inr rb) \<and>
      fst (create_dataset files (self\<lparr>sessions := [A]\<rparr>)) = Inr [ra] \<and>
      fst (create_dataset files (self\<lparr>sessions := [A, B]\<rparr>)) = Inr [ra, rb] \<and>
      fst (create_dataset files (self\<lparr>sessions := [B, A]\<rparr>)) = Inr [rb, ra]"
    by (intro exI [of _ fa] exI [of _ fb] conjI)
  obtain rx where rx: "\<forall>other. collect (extract_features other) xs = Inr rx"
    using collect_extract_features [of xs] by blast
  obtain ry where ry: "\<forall>other. collect (extract_features other) ys = Inr ry"
    using collect_extract_features [of ys] by blast
  have "collect (extract_features (self\<lparr>sessions := xs @ ys\<rparr>)) (xs @ ys) = Inr (rx @ ry)"
    using rx ry by (intro collect_append) simp_all
  then have "xs @ ys \<noteq> [] \<longrightarrow>
         create_dataset files (self\<lparr>sessions := xs @ ys\<rparr>)
           = (Inr (rx @ ry), self\<lparr>sessions := xs @ ys\<rparr>)"
    by (simp add: create_dataset_loaded)
  with rx ry show "\<exists>rx ry. (\<forall>other. collect (extract_features other) xs = Inr rx) \<and>
      (\<forall>other. collect (extract_features other) ys = Inr ry) \<and>
      (xs @ ys \<noteq> [] \<longrightarrow>
         create_dataset files (self\<lparr>sessions := xs @ ys\<rparr>)
           = (Inr (rx @ ry), self\<lparr>sessions := xs @ ys\<rparr>))"
    by (intro exI [of _ rx] exI [of _ ry] conjI)
qed (rule engineer_self)+

theorem batch_equals_independent_extraction_witness:
  "\<exists>ra rb. extract_features empty_loader bare_session = Inr ra \<and>
     extract_features empty_loader scenario_session = Inr rb \<and>
     fst (create_dataset [] (empty_loader\<lparr>sessions := [bare_session]\<rparr>)) = Inr [ra] \<and>
     fst (create_dataset [] (empty_loader\<lparr>sessions := [bare_session, scenario_session]\<rparr>))
       = Inr [ra, rb] \<and>
     fst (create_dataset [] (empty_loader\<lparr>sessions := [scenario_session, bare_session]\<rparr>))
       = Inr [rb, ra]"
proof -
  obtain ra rb where "\<forall>other. extract_features other bare_session = Inr ra"
    "\<forall>other. extract_features other scenario_session = Inr rb"
    "fst (create_dataset [] (empty_loader\<lparr>sessions := [bare_session]\<rparr>)) = Inr [ra]"
    "fst (create_dataset [] (empty_loader\<lparr>sessions := [bare_session, scenario_session]\<rparr>))
       = Inr [ra, rb]"
    "fst (create_dataset [] (empty_loader\<lparr>sessions := [scenario_session, bare_session]\<rparr>))
       = Inr [rb, ra]"
    using batch_equals_independent_extraction
      [of bare_session scenario_session "[]" empty_loader "[]" "[]" new_feature_engineer "[]"
         new_feature_engineer scenario_canvas]
    by (elim conjE exE) (rule that)
  then show ?thesis by (intro exI [of _ ra] exI [of _ rb] conjI) (simp_all only:)
qed

end
